theory Spec2Isabelle
  imports Main "HOL-Library.Word" "HOL-Library.AList"
begin

section \<open>JavaScript strings\<close>

text \<open>
  A JavaScript string is a sequence of 16-bit code units; \<open>length\<close>, \<open>trim\<close>,
  \<open>slice\<close> and the regular expressions of the two servers (none has the \<open>u\<close> flag) all
  work on code units. The literals of the program are ASCII and are written through \<open>js\<close>.
\<close>

type_synonym jschar = "16 word"
type_synonym jsstring = "jschar list"

definition u :: "char \<Rightarrow> jschar" where
  "u c = of_nat (of_char c)"

definition js :: "string \<Rightarrow> jsstring" where
  "js s = map u s"

text \<open>
  \<open>is_space\<close> is the class \<open>\s\<close> of a regular expression, which is also what
  \<open>String.prototype.trim\<close> removes: WhiteSpace (TAB, VT, FF, SP, NBSP, ZWNBSP and the
  category Zs) and LineTerminator (LF, CR, LS, PS).
\<close>

definition is_space :: "jschar \<Rightarrow> bool" where
  "is_space c \<longleftrightarrow>
     c \<in> set [0x09, 0x0A, 0x0B, 0x0C, 0x0D, 0x20, 0xA0, 0x1680,
              0x2000, 0x2001, 0x2002, 0x2003, 0x2004, 0x2005, 0x2006, 0x2007, 0x2008, 0x2009,
              0x200A, 0x2028, 0x2029, 0x202F, 0x205F, 0x3000, 0xFEFF]"

definition trim :: "jsstring \<Rightarrow> jsstring" where
  "trim s = rev (dropWhile is_space (rev (dropWhile is_space s)))"

section \<open>JSON values of a request body\<close>

text \<open>
  A field of the parsed JSON body is absent (\<open>undefined\<close> after destructuring), \<open>null\<close>,
  a boolean, a number or a string. Numbers are modelled where they are integers (the safe
  integers of a double, whose \<open>ToString\<close> is the decimal numeral); array- and
  object-valued fields are outside the model.
\<close>

datatype jsval = JUndefined | JNull | JBool bool | JNum int | JStr jsstring

text \<open>\<open>!v\<close> is true for the falsy values: \<open>undefined\<close>, \<open>null\<close>, \<open>false\<close>, \<open>0\<close>, \<open>""\<close>.\<close>

fun falsy :: "jsval \<Rightarrow> bool" where
  "falsy JUndefined = True"
| "falsy JNull = True"
| "falsy (JBool b) = (\<not> b)"
| "falsy (JNum n) = (n = 0)"
| "falsy (JStr s) = (s = [])"

fun is_string :: "jsval \<Rightarrow> bool" where
  "is_string (JStr s) = True"
| "is_string v = False"

section \<open>The sanitizer (first server, \<open>sanitize\<close>)\<close>

text \<open>
  \<^verbatim>\<open>input.replace(/<\/?[^>]+(>|$)/g, "").trim()\<close>

  \<open>match_tail\<close> is \<^verbatim>\<open>[^>]+(>|$)\<close> at the head of the input: the greedy run of
  code units other than \<open>>\<close> must be non-empty, and what stops it is a \<open>>\<close> (consumed) or
  the end of the input, so the alternative always succeeds after it. \<open>match_tag\<close> is the
  whole expression at the head of the input, with the optional \<open>/\<close> tried first and
  given back when the rest fails without it. Both return the input left after the match.
\<close>

definition match_tail :: "jsstring \<Rightarrow> jsstring option" where
  "match_tail s =
     (if takeWhile (\<lambda>c. c \<noteq> u CHR ''>'') s = [] then None
      else Some (case dropWhile (\<lambda>c. c \<noteq> u CHR ''>'') s of [] \<Rightarrow> [] | c # r \<Rightarrow> r))"

definition match_tag :: "jsstring \<Rightarrow> jsstring option" where
  "match_tag s =
     (case s of
        [] \<Rightarrow> None
      | c # t \<Rightarrow>
          if c \<noteq> u CHR ''<'' then None
          else (case t of
                  [] \<Rightarrow> None
                | d # t' \<Rightarrow>
                    if d = u CHR ''/'' then
                      (case match_tail t' of Some r \<Rightarrow> Some r | None \<Rightarrow> match_tail t)
                    else match_tail t))"

lemma match_tail_length: "match_tail s = Some r \<Longrightarrow> length r \<le> length s"
proof -
  assume a: "match_tail s = Some r"
  have d: "length (dropWhile (\<lambda>c. c \<noteq> u CHR ''>'') s) \<le> length s"
    by (rule length_dropWhile_le)
  from a show ?thesis
    using d by (auto simp: match_tail_def split: if_splits list.splits)
qed

lemma match_tag_length: "match_tag s = Some r \<Longrightarrow> length r < length s"
  by (auto simp: match_tag_def split: list.splits if_splits option.splits
      dest!: match_tail_length)

text \<open>
  The global replace scans from the left: where the expression matches, the match is
  dropped and the scan goes on after it; elsewhere the code unit is kept.
\<close>

function strip_tags :: "jsstring \<Rightarrow> jsstring" where
  "strip_tags [] = []"
| "strip_tags (c # s) =
     (case match_tag (c # s) of
        Some r \<Rightarrow> strip_tags r
      | None \<Rightarrow> c # strip_tags s)"
  by pat_completeness auto
termination
  by (relation "measure length") (auto dest: match_tag_length)

fun sanitize :: "jsval \<Rightarrow> jsval" where
  "sanitize (JStr s) = JStr (trim (strip_tags s))"
| "sanitize v = v"


text \<open>
  \<open>no_tag s\<close>: the expression of the sanitizer matches at no position of \<open>s\<close>.
\<close>

fun no_tag :: "jsstring \<Rightarrow> bool" where
  "no_tag [] = True"
| "no_tag (c # s) = (match_tag (c # s) = None \<and> no_tag s)"

section \<open>Conversions of the runtime\<close>

text \<open>\<open>Number.prototype.toString\<close> on an integer: the decimal numeral.\<close>

definition digit_char :: "nat \<Rightarrow> jschar" where
  "digit_char d = of_nat (48 + d)"

fun digits :: "nat \<Rightarrow> jsstring" where
  "digits n = (if n < 10 then [digit_char n] else digits (n div 10) @ [digit_char (n mod 10)])"

declare digits.simps [simp del]

definition num_to_string :: "int \<Rightarrow> jsstring" where
  "num_to_string n = (if n < 0 then u CHR ''-'' # digits (nat (- n)) else digits (nat n))"

text \<open>\<open>ToString\<close>, as a template literal and \<open>RegExp.prototype.test\<close> apply it.\<close>

fun ToString :: "jsval \<Rightarrow> jsstring" where
  "ToString JUndefined = js ''undefined''"
| "ToString JNull = js ''null''"
| "ToString (JBool b) = (if b then js ''true'' else js ''false'')"
| "ToString (JNum n) = num_to_string n"
| "ToString (JStr s) = s"

text \<open>
  \<open>v.length\<close> of a truthy value: the number of code units of a string, \<open>undefined\<close>
  (here \<open>None\<close>) on a number or a boolean. A comparison with \<open>undefined\<close> is false.
\<close>

fun js_length :: "jsval \<Rightarrow> nat option" where
  "js_length (JStr s) = Some (length s)"
| "js_length v = None"

text \<open>\<open>s.slice(-n)\<close>: the last \<open>n\<close> code units, the whole string when it is shorter.\<close>

definition slice_last :: "nat \<Rightarrow> jsstring \<Rightarrow> jsstring" where
  "slice_last n s = drop (length s - n) s"

text \<open>
  \<open>new Date(v)\<close>, as its time value in epoch milliseconds (\<open>None\<close> is an invalid date,
  whose time value is NaN). Parsing a string is the runtime's \<open>Date.parse\<close>, which is
  implementation-defined outside the ISO format: it is the parameter \<open>parse\<close>.
\<close>

fun newDate :: "(jsstring \<Rightarrow> int option) \<Rightarrow> jsval \<Rightarrow> int option" where
  "newDate parse JUndefined = None"
| "newDate parse JNull = Some 0"
| "newDate parse (JBool b) = Some (if b then 1 else 0)"
| "newDate parse (JNum n) = (if \<bar>n\<bar> \<le> 8640000000000000 then Some n else None)"
| "newDate parse (JStr s) = parse s"

section \<open>Regular expressions\<close>

text \<open>
  Every expression given to \<open>test\<close> in the two servers is \<open>^ \<dots> $\<close> around a sequence
  of quantified character classes. \<open>Piece p lo hi\<close> is the class \<open>p\<close> repeated at least
  \<open>lo\<close> and at most \<open>hi\<close> times (\<open>None\<close>: unbounded); \<open>match_pieces\<close> tries every
  admissible length of the first piece, as the backtracking matcher does.
\<close>

datatype piece = Piece "jschar \<Rightarrow> bool" nat "nat option"

fun match_pieces :: "piece list \<Rightarrow> jsstring \<Rightarrow> bool" where
  "match_pieces [] s = (s = [])"
| "match_pieces (Piece p lo hi # ps) s =
     list_ex (\<lambda>n. list_all p (take n s) \<and> match_pieces ps (drop n s))
       [lo ..< Suc (case hi of None \<Rightarrow> length s | Some h \<Rightarrow> min h (length s))]"

definition one :: "char \<Rightarrow> piece" where
  "one c = Piece (\<lambda>x. x = u c) 1 (Some 1)"

definition opt :: "char \<Rightarrow> piece" where
  "opt c = Piece (\<lambda>x. x = u c) 0 (Some 1)"

definition plus :: "(jschar \<Rightarrow> bool) \<Rightarrow> piece" where
  "plus p = Piece p 1 None"

definition between :: "char \<Rightarrow> char \<Rightarrow> jschar \<Rightarrow> bool" where
  "between a b c \<longleftrightarrow> u a \<le> c \<and> c \<le> u b"

definition is_digit :: "jschar \<Rightarrow> bool" where
  "is_digit c \<longleftrightarrow> between CHR ''0'' CHR ''9'' c"

definition is_alnum :: "jschar \<Rightarrow> bool" where
  "is_alnum c \<longleftrightarrow> between CHR ''a'' CHR ''z'' c \<or> between CHR ''A'' CHR ''Z'' c \<or> is_digit c"

text \<open>\<^verbatim>\<open>/^[a-zA-Z0-9_]+$/\<close>\<close>

definition re_username :: "piece list" where
  "re_username = [plus (\<lambda>c. is_alnum c \<or> c = u CHR ''_'')]"

text \<open>\<^verbatim>\<open>/^[^\s@]+@[^\s@]+\.[^\s@]+$/\<close>\<close>

definition re_email :: "piece list" where
  "re_email =
     [plus (\<lambda>c. \<not> is_space c \<and> c \<noteq> u CHR ''@''), one CHR ''@'',
      plus (\<lambda>c. \<not> is_space c \<and> c \<noteq> u CHR ''@''), one CHR ''.'',
      plus (\<lambda>c. \<not> is_space c \<and> c \<noteq> u CHR ''@'')]"

text \<open>\<^verbatim>\<open>/^[a-zA-Z0-9-_]+$/\<close>\<close>

definition re_gameId :: "piece list" where
  "re_gameId = [plus (\<lambda>c. is_alnum c \<or> c = u CHR ''-'' \<or> c = u CHR ''_'')]"

text \<open>\<^verbatim>\<open>/^\+?[0-9]{10,15}$/\<close>\<close>

definition re_phone :: "piece list" where
  "re_phone = [opt CHR ''+'', Piece is_digit 10 (Some 15)]"

text \<open>\<^verbatim>\<open>/^\S+@\S+\.\S+$/\<close> (the second server)\<close>

definition re_email_srv :: "piece list" where
  "re_email_srv =
     [plus (\<lambda>c. \<not> is_space c), one CHR ''@'', plus (\<lambda>c. \<not> is_space c), one CHR ''.'',
      plus (\<lambda>c. \<not> is_space c)]"


section \<open>Requests, responses and mail\<close>

record body =
  username :: jsval
  email :: jsval
  gameId :: jsval
  platform :: jsval
  issueType :: jsval
  description :: jsval
  dateOfIssue :: jsval
  phoneNumber :: jsval

text \<open>
  The JSON envelope a handler answers with, and its status. \<open>errors\<close> is the
  \<open>validationErrors\<close> object: its keys in the order they were assigned.
\<close>

record response =
  status :: nat
  success :: bool
  message :: "jsstring option"
  errors :: "(jsstring \<times> jsstring) list option"
  referenceNumber :: "jsstring option"

record mailOptions =
  mail_from :: "jsstring option"
  mail_to :: jsstring
  mail_subject :: jsstring
  mail_text :: jsstring

text \<open>What the callback of \<open>transport.sendMail\<close> receives: an error or none.\<close>

datatype relay_result = Sent | RelayError

definition nl :: jsstring where
  "nl = [0x0A]"

text \<open>
  The template literal of the mail text, the same in both servers; its holes are filled
  with strings (the template has applied \<open>ToString\<close>).
\<close>

definition mail_template ::
  "jsstring \<Rightarrow> jsstring \<Rightarrow> jsstring \<Rightarrow> jsstring \<Rightarrow> jsstring \<Rightarrow> jsstring \<Rightarrow> jsstring \<Rightarrow>
   jsstring \<Rightarrow> jsstring \<Rightarrow> jsstring" where
  "mail_template ref usr eml phone plat issue game date descr =
     nl @ js ''PENASLOT Customer Complaint'' @ nl @ nl
     @ js ''Nomor Referensi: '' @ ref @ nl
     @ js ''Username: '' @ usr @ nl
     @ js ''Email: '' @ eml @ nl
     @ js ''Nomor Whatsapp: '' @ phone @ nl
     @ js ''Platform: '' @ plat @ nl
     @ js ''Jenis Kendala: '' @ issue @ nl
     @ js ''Game ID: '' @ game @ nl
     @ js ''Tanggal: '' @ date @ nl @ nl
     @ js ''Description:'' @ nl
     @ descr @ nl @ js ''      ''"

text \<open>\<^verbatim>\<open>${v || "N/A"}\<close>\<close>

definition or_na :: "jsval \<Rightarrow> jsstring" where
  "or_na v = (if falsy v then js ''N/A'' else ToString v)"

text \<open>\<^verbatim>\<open>`PENA-${Date.now().toString().slice(-8)}`\<close>, from the reading of the clock.\<close>

definition refNumber :: "int \<Rightarrow> jsstring" where
  "refNumber now = js ''PENA-'' @ slice_last 8 (num_to_string now)"

definition server_error :: response where
  "server_error =
     \<lparr>status = 500, success = False, message = Some (js ''Terjadi kesalahan pada server''),
      errors = None, referenceNumber = None\<rparr>"

definition relay_error :: response where
  "relay_error =
     \<lparr>status = 500, success = False, message = Some (js ''Gagal mengirim email''),
      errors = None, referenceNumber = None\<rparr>"

definition invalid_data :: "(jsstring \<times> jsstring) list \<Rightarrow> response" where
  "invalid_data errs =
     \<lparr>status = 400, success = False, message = Some (js ''Data tidak valid''),
      errors = Some errs, referenceNumber = None\<rparr>"

definition accepted :: "jsstring \<Rightarrow> response" where
  "accepted ref =
     \<lparr>status = 200, success = True, message = None, errors = None,
      referenceNumber = Some ref\<rparr>"

section \<open>The first server: validators, sanitizer, handler\<close>

definition validators_username :: "jsval \<Rightarrow> bool" where
  "validators_username v =
     (case v of
        JStr s \<Rightarrow> length (trim s) \<ge> 3 \<and> length (trim s) \<le> 50 \<and> match_pieces re_username s
      | _ \<Rightarrow> False)"

definition validators_email :: "jsval \<Rightarrow> bool" where
  "validators_email v =
     (case v of JStr s \<Rightarrow> match_pieces re_email s \<and> length s \<le> 100 | _ \<Rightarrow> False)"

definition validators_gameId :: "jsval \<Rightarrow> bool" where
  "validators_gameId v =
     (if falsy v then True
      else (case v of
              JStr s \<Rightarrow> length (trim s) \<le> 50 \<and> match_pieces re_gameId s
            | _ \<Rightarrow> False))"

definition validators_platform :: "jsval \<Rightarrow> bool" where
  "validators_platform v = (v = JStr (js ''PENASLOT''))"

definition validIssueTypes :: "jsstring list" where
  "validIssueTypes =
     [js ''Deposit/Penarikan Bermasalah'', js ''Kerusakan Game'', js ''Masalah Akses Akun'',
      js ''Masalah Bonus/Promosi'', js ''Kesalahan Proses Pembayaran'', js ''Logout Tiba-tiba'',
      js ''Masalah Pembayaran Jackpot'', js ''Lainnya'']"

definition validators_issueType :: "jsval \<Rightarrow> bool" where
  "validators_issueType v = (case v of JStr s \<Rightarrow> s \<in> set validIssueTypes | _ \<Rightarrow> False)"

definition validators_description :: "jsval \<Rightarrow> bool" where
  "validators_description v =
     (case v of JStr s \<Rightarrow> length (trim s) > 0 \<and> length (trim s) \<le> 2000 | _ \<Rightarrow> False)"

text \<open>\<open>today\<close> is the reading of the clock by \<open>new Date()\<close>.\<close>

definition validators_dateOfIssue :: "(jsstring \<Rightarrow> int option) \<Rightarrow> int \<Rightarrow> jsval \<Rightarrow> bool" where
  "validators_dateOfIssue parse today v =
     (case newDate parse v of None \<Rightarrow> False | Some d \<Rightarrow> d \<le> today)"

definition validators_phoneNumber :: "jsval \<Rightarrow> bool" where
  "validators_phoneNumber v = (case v of JStr s \<Rightarrow> match_pieces re_phone s | _ \<Rightarrow> False)"

text \<open>One \<open>if\<close> of the handler: the key is assigned when the predicate fails.\<close>

definition check :: "bool \<Rightarrow> jsstring \<Rightarrow> jsstring \<Rightarrow> (jsstring \<times> jsstring) list" where
  "check ok k msg = (if \<not> ok then [(k, msg)] else [])"

definition validationErrors ::
  "(jsstring \<Rightarrow> int option) \<Rightarrow> int \<Rightarrow> body \<Rightarrow> (jsstring \<times> jsstring) list" where
  "validationErrors parse today b =
     check (validators_username (username b)) (js ''username'') (js ''Username tidak valid'')
     @ check (validators_email (email b)) (js ''email'') (js ''Email tidak valid'')
     @ check (validators_platform (platform b)) (js ''platform'') (js ''Platform tidak valid'')
     @ check (validators_issueType (issueType b)) (js ''issueType'') (js ''Jenis issue tidak valid'')
     @ check (validators_description (description b)) (js ''description'')
         (js ''Deskripsi tidak valid'')
     @ check (validators_dateOfIssue parse today (dateOfIssue b)) (js ''dateOfIssue'')
         (js ''Tanggal masalah tidak valid'')
     @ check (validators_phoneNumber (phoneNumber b)) (js ''phoneNumber'')
         (js ''Nomor telepon tidak valid'')
     @ check (validators_gameId (gameId b)) (js ''gameId'') (js ''ID game tidak valid'')"

definition sanitizedData :: "body \<Rightarrow> body" where
  "sanitizedData b =
     \<lparr>username = sanitize (username b), email = sanitize (email b),
      gameId = sanitize (gameId b), platform = sanitize (platform b),
      issueType = sanitize (issueType b), description = sanitize (description b),
      dateOfIssue = sanitize (dateOfIssue b), phoneNumber = sanitize (phoneNumber b)\<rparr>"

definition mail_recipient :: jsstring where
  "mail_recipient = js ''teampenaslot@gmail.com''"

definition mailOptions_of :: "jsstring option \<Rightarrow> jsstring \<Rightarrow> body \<Rightarrow> mailOptions" where
  "mailOptions_of gmail_user ref d =
     \<lparr>mail_from = gmail_user, mail_to = mail_recipient,
      mail_subject =
        js ''PENASLOT Complaint: '' @ ToString (issueType d) @ js '' - ''
        @ ToString (username d) @ js '' - '' @ ref,
      mail_text =
        mail_template ref (ToString (username d)) (ToString (email d))
          (ToString (phoneNumber d)) (ToString (platform d)) (ToString (issueType d))
          (or_na (gameId d)) (ToString (dateOfIssue d)) (ToString (description d))\<rparr>"

text \<open>
  \<open>app.post("/send-complaint")\<close> of the first server. \<open>req_body\<close> is \<open>None\<close> when
  \<open>req.body\<close> is \<open>undefined\<close>: the destructuring throws and the \<open>catch\<close> answers.
  \<open>today\<close> and \<open>now\<close> are the readings of the clock by \<open>new Date()\<close> and \<open>Date.now()\<close>;
  \<open>sendMail\<close> is the mail relay, \<open>gmail_user\<close> the environment's sender.
\<close>

definition send_complaint ::
  "(jsstring \<Rightarrow> int option) \<Rightarrow> jsstring option \<Rightarrow> (mailOptions \<Rightarrow> relay_result) \<Rightarrow>
   int \<Rightarrow> int \<Rightarrow> body option \<Rightarrow> response" where
  "send_complaint parse gmail_user sendMail today now req_body =
     (case req_body of
        None \<Rightarrow> server_error
      | Some b \<Rightarrow>
          let errs = validationErrors parse today b in
          if length errs > 0 then invalid_data errs
          else
            let ref = refNumber now in
            (case sendMail (mailOptions_of gmail_user ref (sanitizedData b)) of
               RelayError \<Rightarrow> relay_error
             | Sent \<Rightarrow> accepted ref))"


section \<open>The second server: token store and CSRF protocol\<close>

text \<open>
  \<open>tokenStore\<close> is a \<open>Map\<close> from session identifier to token record. It is kept as the
  list of its entries in insertion order: \<open>set\<close> is \<open>AList.update\<close> (an existing key keeps
  its place), \<open>get\<close> is \<open>map_of\<close>, \<open>delete\<close> is \<open>AList.delete\<close>.
\<close>

record token_data =
  token :: jsstring
  expires :: int

type_synonym token_store = "(jsstring \<times> token_data) list"

text \<open>The cookies of a request, as \<open>cookie-parser\<close> gives them: absent or a string.\<close>

record cookies =
  sessionId :: "jsstring option"
  csrfToken :: "jsstring option"

definition cookie_truthy :: "jsstring option \<Rightarrow> bool" where
  "cookie_truthy c = (case c of None \<Rightarrow> False | Some s \<Rightarrow> s \<noteq> [])"

record set_cookie =
  cookie_name :: jsstring
  cookie_value :: jsstring
  httpOnly :: bool
  secure :: bool
  sameSite :: jsstring
  maxAge :: int

text \<open>
  \<open>generateSecureToken\<close>: \<open>rand\<close> is the hexadecimal string of the 32 random bytes, \<open>now\<close>
  the reading of the clock.
\<close>

definition generateSecureToken :: "jsstring \<Rightarrow> int \<Rightarrow> token_data" where
  "generateSecureToken rand now = \<lparr>token = rand, expires = now + 30 * 60 * 1000\<rparr>"

text \<open>
  The loop that removes the expired records. It reads the clock once per entry:
  \<open>clk i\<close> is the reading at the \<open>i\<close>-th entry.
\<close>

fun sweep :: "(nat \<Rightarrow> int) \<Rightarrow> nat \<Rightarrow> (jsstring \<times> token_data) list \<Rightarrow> token_store \<Rightarrow> token_store" where
  "sweep clk i [] st = st"
| "sweep clk i ((key, data) # rest) st =
     sweep clk (Suc i) rest (if expires data < clk i then AList.delete key st else st)"

definition ok_response :: response where
  "ok_response =
     \<lparr>status = 200, success = True, message = None, errors = None, referenceNumber = None\<rparr>"

text \<open>
  \<open>app.get("/get-csrf-token")\<close>. \<open>rand_sid\<close> and \<open>rand_token\<close> are the outputs of
  \<open>crypto.randomBytes\<close> in hexadecimal, \<open>production\<close> is
  \<open>process.env.NODE_ENV === "production"\<close>, \<open>t_mint\<close> the reading of the clock in
  \<open>generateSecureToken\<close>.
\<close>

definition get_csrf_token ::
  "bool \<Rightarrow> jsstring \<Rightarrow> jsstring \<Rightarrow> int \<Rightarrow> (nat \<Rightarrow> int) \<Rightarrow> token_store \<Rightarrow> cookies \<Rightarrow>
   token_store \<times> set_cookie list \<times> response" where
  "get_csrf_token production rand_sid rand_token t_mint clk st ck =
     (let sid = (case sessionId ck of
                   Some s \<Rightarrow> if s \<noteq> [] then s else rand_sid
                 | None \<Rightarrow> rand_sid);
          tokenData = generateSecureToken rand_token t_mint;
          st1 = AList.update sid tokenData st;
          st2 = sweep clk 0 st1 st1
      in (st2,
          [\<lparr>cookie_name = js ''sessionId'', cookie_value = sid, httpOnly = True,
            secure = production, sameSite = js ''strict'', maxAge = 30 * 60 * 1000\<rparr>,
           \<lparr>cookie_name = js ''csrfToken'', cookie_value = token tokenData, httpOnly = True,
            secure = production, sameSite = js ''strict'', maxAge = 30 * 60 * 1000\<rparr>],
          ok_response))"

text \<open>The outcome of a middleware: it calls \<open>next()\<close> or answers itself.\<close>

datatype mw_result = Next | Respond response

definition csrf_missing :: response where
  "csrf_missing =
     \<lparr>status = 403, success = False,
      message = Some (js ''Gagal memverifikasi permintaan. Coba lagi.''),
      errors = None, referenceNumber = None\<rparr>"

definition csrf_invalid :: response where
  "csrf_invalid =
     \<lparr>status = 403, success = False,
      message = Some (js ''Token CSRF tidak valid atau kedaluwarsa.''),
      errors = None, referenceNumber = None\<rparr>"

text \<open>
  \<open>validateCsrfToken\<close>, with the store passed through: \<open>now\<close> is the reading of the
  clock by \<open>Date.now()\<close>.
\<close>

definition validateCsrfToken :: "int \<Rightarrow> token_store \<Rightarrow> cookies \<Rightarrow> token_store \<times> mw_result" where
  "validateCsrfToken now st ck =
     (if \<not> cookie_truthy (sessionId ck) \<or> \<not> cookie_truthy (csrfToken ck)
      then (st, Respond csrf_missing)
      else
        (case (sessionId ck, csrfToken ck) of
           (Some sid, Some tok) \<Rightarrow>
             (case map_of st sid of
                None \<Rightarrow> (st, Respond csrf_invalid)
              | Some storedTokenData \<Rightarrow>
                  if token storedTokenData \<noteq> tok \<or> expires storedTokenData < now
                  then (st, Respond csrf_invalid)
                  else (st, Next))
         | _ \<Rightarrow> (st, Respond csrf_missing)))"

section \<open>The second server: the submission handler\<close>

text \<open>The inline checks of the handler; \<open>x < n\<close> and \<open>x > n\<close> are false on \<open>undefined\<close>.\<close>

definition length_lt :: "jsval \<Rightarrow> nat \<Rightarrow> bool" where
  "length_lt v n = (case js_length v of None \<Rightarrow> False | Some l \<Rightarrow> l < n)"

definition length_gt :: "jsval \<Rightarrow> nat \<Rightarrow> bool" where
  "length_gt v n = (case js_length v of None \<Rightarrow> False | Some l \<Rightarrow> l > n)"

text \<open>\<open>new Date(v) > new Date()\<close>: false when the left date is invalid.\<close>

definition date_after :: "(jsstring \<Rightarrow> int option) \<Rightarrow> jsval \<Rightarrow> int \<Rightarrow> bool" where
  "date_after parse v today = (case newDate parse v of None \<Rightarrow> False | Some d \<Rightarrow> d > today)"

definition validationErrors_srv ::
  "(jsstring \<Rightarrow> int option) \<Rightarrow> int \<Rightarrow> body \<Rightarrow> (jsstring \<times> jsstring) list" where
  "validationErrors_srv parse today b =
     check (\<not> (falsy (username b) \<or> length_lt (username b) 3 \<or> length_gt (username b) 50))
       (js ''username'') (js ''Username tidak valid'')
     @ check (\<not> (falsy (email b) \<or> \<not> match_pieces re_email_srv (ToString (email b))))
         (js ''email'') (js ''Email tidak valid'')
     @ check (\<not> falsy (issueType b)) (js ''issueType'') (js ''Jenis keluhan tidak valid'')
     @ check (\<not> (falsy (description b) \<or> length_gt (description b) 2000))
         (js ''description'') (js ''Deskripsi tidak valid'')
     @ check (\<not> (falsy (dateOfIssue b) \<or> date_after parse (dateOfIssue b) today))
         (js ''dateOfIssue'') (js ''Tanggal tidak valid'')
     @ check (\<not> (falsy (phoneNumber b) \<or> \<not> match_pieces re_phone (ToString (phoneNumber b))))
         (js ''phoneNumber'') (js ''Nomor telepon tidak valid'')"

text \<open>
  The handler up to the call of \<open>transport.sendMail\<close>: it answers itself (\<open>Inl\<close>) or hands
  the message and the reference number to the relay (\<open>Inr\<close>). The fields go into the
  message as they came (\<open>mailOptions_of\<close> on the body itself).
\<close>

definition send_complaint_srv ::
  "(jsstring \<Rightarrow> int option) \<Rightarrow> jsstring option \<Rightarrow> int \<Rightarrow> int \<Rightarrow> body option \<Rightarrow>
   response + mailOptions \<times> jsstring" where
  "send_complaint_srv parse gmail_user today now req_body =
     (case req_body of
        None \<Rightarrow> Inl server_error
      | Some b \<Rightarrow>
          let errs = validationErrors_srv parse today b in
          if length errs > 0 then Inl (invalid_data errs)
          else
            let ref = refNumber now in
            Inr (mailOptions_of gmail_user ref b, ref))"

text \<open>
  The callback of \<open>sendMail\<close>, run on the store as it is when the relay has answered.
\<close>

definition sendMail_callback ::
  "relay_result \<Rightarrow> jsstring \<Rightarrow> token_store \<Rightarrow> cookies \<Rightarrow> token_store \<times> response" where
  "sendMail_callback result ref st ck =
     (case result of
        RelayError \<Rightarrow> (st, relay_error)
      | Sent \<Rightarrow>
          ((if cookie_truthy (sessionId ck)
            then (case sessionId ck of Some sid \<Rightarrow> AList.delete sid st | None \<Rightarrow> st)
            else st),
           accepted ref))"

text \<open>
  \<open>app.post("/send-complaint", limiter, validateCsrfToken, handler)\<close> for a request the
  rate limiter lets through, with no other request served before the relay answers.
  \<open>t_csrf\<close>, \<open>today\<close> and \<open>now\<close> are the three readings of the clock.
\<close>

definition post_send_complaint ::
  "(jsstring \<Rightarrow> int option) \<Rightarrow> jsstring option \<Rightarrow> (mailOptions \<Rightarrow> relay_result) \<Rightarrow>
   int \<Rightarrow> int \<Rightarrow> int \<Rightarrow> token_store \<Rightarrow> cookies \<Rightarrow> body option \<Rightarrow> token_store \<times> response" where
  "post_send_complaint parse gmail_user sendMail t_csrf today now st ck req_body =
     (case validateCsrfToken t_csrf st ck of
        (st1, Respond r) \<Rightarrow> (st1, r)
      | (st1, Next) \<Rightarrow>
          (case send_complaint_srv parse gmail_user today now req_body of
             Inl r \<Rightarrow> (st1, r)
           | Inr (mo, ref) \<Rightarrow> sendMail_callback (sendMail mo) ref st1 ck))"


section \<open>The specification's reading of token validation\<close>

text \<open>
  The specification's invariant, in its words: a record is valid iff the current time is
  before \<open>expiresAt\<close>.
\<close>

definition record_valid_spec :: "int \<Rightarrow> token_data \<Rightarrow> bool" where
  "record_valid_spec now d \<longleftrightarrow> now < expires d"

text \<open>
  The specification's rejection rule, in its words: a cookie is absent, no record exists
  for the session, the stored token differs, or the record is not valid.
\<close>

definition csrf_rejected_spec :: "int \<Rightarrow> token_store \<Rightarrow> cookies \<Rightarrow> bool" where
  "csrf_rejected_spec now st ck \<longleftrightarrow>
     (case (sessionId ck, csrfToken ck) of
        (Some sid, Some tok) \<Rightarrow>
          (case map_of st sid of
             None \<Rightarrow> True
           | Some d \<Rightarrow> token d \<noteq> tok \<or> \<not> record_valid_spec now d)
      | _ \<Rightarrow> True)"

section \<open>A sample submission\<close>

text \<open>
  One well-formed submission, its session and a \<open>Date.parse\<close> that knows its date: the
  concrete inputs at which the theorems below are instantiated.
\<close>

definition example_body :: body where
  "example_body =
     \<lparr>username = JStr (js ''budi_01''), email = JStr (js ''budi@mail.id''),
      gameId = JStr [], platform = JStr (js ''PENASLOT''),
      issueType = JStr (js ''Lainnya''), description = JStr (js '' <b>saldo</b> hilang ''),
      dateOfIssue = JStr (js ''2024-01-01''), phoneNumber = JStr (js ''+6281234567890'')\<rparr>"

definition example_parse :: "jsstring \<Rightarrow> int option" where
  "example_parse s = (if s = js ''2024-01-01'' then Some 1704067200000 else None)"

definition example_cookies :: cookies where
  "example_cookies = \<lparr>sessionId = Some (js ''5e55''), csrfToken = Some (js ''70ce'')\<rparr>"

definition example_store :: token_store where
  "example_store = [(js ''5e55'', \<lparr>token = js ''70ce'', expires = 1704070800000\<rparr>)]"

section \<open>The specification's reading of the second server's mail\<close>

text \<open>
  The mail with every field of the body embedded as it came, the game identifier like the
  others: the reading that C10 is measured against.
\<close>

definition raw_mailOptions_spec :: "jsstring option \<Rightarrow> jsstring \<Rightarrow> body \<Rightarrow> mailOptions" where
  "raw_mailOptions_spec gmail_user ref b =
     \<lparr>mail_from = gmail_user, mail_to = mail_recipient,
      mail_subject =
        js ''PENASLOT Complaint: '' @ ToString (issueType b) @ js '' - ''
        @ ToString (username b) @ js '' - '' @ ref,
      mail_text =
        mail_template ref (ToString (username b)) (ToString (email b))
          (ToString (phoneNumber b)) (ToString (platform b)) (ToString (issueType b))
          (ToString (gameId b)) (ToString (dateOfIssue b)) (ToString (description b))\<rparr>"

section \<open>The specification's reading of the sweep\<close>


section \<open>Properties of the sanitizer\<close>

lemma match_tail_eq:
  "match_tail s = (if s = [] \<or> hd s = u CHR ''>'' then None
                   else Some (drop 1 (dropWhile (\<lambda>c. c \<noteq> u CHR ''>'') s)))"
proof -
  have c: "(case xs of [] \<Rightarrow> [] | c # r \<Rightarrow> r) = drop 1 xs" for xs :: jsstring
    by (cases xs) simp_all
  show ?thesis
    unfolding match_tail_def c by (cases s) simp_all
qed

lemma match_tag_eq:
  "match_tag s = (if s \<noteq> [] \<and> hd s = u CHR ''<'' \<and> tl s \<noteq> [] \<and> hd (tl s) \<noteq> u CHR ''>''
                  then Some (drop 1 (dropWhile (\<lambda>c. c \<noteq> u CHR ''>'') (tl s))) else None)"
proof -
  have ne: "u CHR ''/'' \<noteq> u CHR ''>''" "u CHR ''>'' \<noteq> u CHR ''/''" by (simp_all add: u_def)
  show ?thesis
    by (cases s; cases "tl s") (auto simp: match_tag_def match_tail_eq ne split: list.splits)
qed

lemma no_tag_suffixes: "no_tag s \<longleftrightarrow> (\<forall>p q. s = p @ q \<longrightarrow> match_tag q = None)"
proof (induction s)
  case Nil
  then show ?case by (simp add: match_tag_def)
next
  case (Cons c s)
  show ?case
  proof
    assume a: "no_tag (c # s)"
    show "\<forall>p q. c # s = p @ q \<longrightarrow> match_tag q = None"
    proof (intro allI impI)
      fix p q assume e: "c # s = p @ q"
      show "match_tag q = None"
      proof (cases p)
        case Nil
        with e have "q = c # s" by simp
        with a show ?thesis by simp
      next
        case (Cons x p')
        with e have "s = p' @ q" by simp
        with a Cons.IH show ?thesis by auto
      qed
    qed
  next
    assume a: "\<forall>p q. c # s = p @ q \<longrightarrow> match_tag q = None"
    then have 1: "match_tag (c # s) = None" by (metis append_Nil)
    have "\<forall>p q. s = p @ q \<longrightarrow> match_tag q = None"
      using a by (metis append_Cons)
    with Cons.IH 1 show "no_tag (c # s)" by simp
  qed
qed

lemma strip_tags_no_tag: "no_tag s \<Longrightarrow> strip_tags s = s"
  by (induction s) auto

lemma no_tag_strip_tags: "no_tag (strip_tags s)"
proof (induction s rule: strip_tags.induct)
  case 1
  then show ?case by simp
next
  case (2 c s)
  show ?case
  proof (cases "match_tag (c # s)")
    case None
    have gt: "u CHR ''>'' \<noteq> u CHR ''<''" by (simp add: u_def)
    have "match_tag (c # strip_tags s) = None"
    proof (cases s)
      case Nil
      then show ?thesis by (simp add: match_tag_eq)
    next
      case (Cons d t)
      with None have "c = u CHR ''<'' \<Longrightarrow> d = u CHR ''>''"
        by (auto simp: match_tag_eq split: if_splits)
      then show ?thesis using Cons gt
        by (auto simp: match_tag_eq split: option.splits)
    qed
    with None 2 show ?thesis by simp
  next
    case (Some r)
    with 2 show ?thesis by simp
  qed
qed

lemma no_tag_drop: "no_tag s \<Longrightarrow> no_tag (drop n s)"
  by (induction s arbitrary: n) (auto simp: drop_Cons split: nat.splits)

lemma no_tag_take: "no_tag s \<Longrightarrow> no_tag (take n s)"
proof (induction s arbitrary: n)
  case Nil
  then show ?case by simp
next
  case (Cons c s)
  show ?case
  proof (cases n)
    case 0
    then show ?thesis by simp
  next
    case (Suc m)
    from Cons.prems have 1: "no_tag (take m s)" using Cons.IH by simp
    from Cons.prems have "match_tag (c # s) = None" by simp
    then have "match_tag (c # take m s) = None"
      by (cases s; cases m) (auto simp: match_tag_eq split: if_splits)
    with 1 Suc show ?thesis by simp
  qed
qed

lemma dropWhile_is_drop: "dropWhile P s = drop (length (takeWhile P s)) s"
  by (induction s) auto

lemma rev_dropWhile_rev_is_take:
  "rev (dropWhile P (rev s)) = take (length s - length (takeWhile P (rev s))) s"
proof -
  have "rev (dropWhile P (rev s)) = rev (drop (length (takeWhile P (rev s))) (rev s))"
    by (simp add: dropWhile_is_drop [symmetric])
  then show ?thesis by (simp add: rev_drop)
qed

lemma no_tag_trim: "no_tag s \<Longrightarrow> no_tag (trim s)"
  unfolding trim_def
  by (subst rev_dropWhile_rev_is_take, subst dropWhile_is_drop) (intro no_tag_take no_tag_drop)

lemma trim_ends: "trim s = [] \<or> (\<not> is_space (hd (trim s)) \<and> \<not> is_space (last (trim s)))"
proof -
  define y where "y = dropWhile is_space s"
  define z where "z = dropWhile is_space (rev y)"
  have t: "trim s = rev z" by (simp add: trim_def y_def z_def)
  show ?thesis
  proof (cases "z = []")
    case True
    with t show ?thesis by simp
  next
    case False
    then have hz: "\<not> is_space (hd z)" unfolding z_def by (metis hd_dropWhile)
    have "rev y = takeWhile is_space (rev y) @ z" by (simp add: z_def)
    then have "y = rev z @ rev (takeWhile is_space (rev y))"
      by (metis rev_append rev_rev_ident)
    with False have "hd y = hd (rev z)" by (metis hd_append2 rev_is_Nil_conv)
    moreover have "y \<noteq> []" using False z_def by auto
    then have "\<not> is_space (hd y)" unfolding y_def by (metis hd_dropWhile)
    ultimately show ?thesis using t hz False by (simp add: last_rev)
  qed
qed

lemma trim_fixed: "s = [] \<or> (\<not> is_space (hd s) \<and> \<not> is_space (last s)) \<Longrightarrow> trim s = s"
proof (cases "s = []")
  case True
  then show ?thesis by (simp add: trim_def)
next
  case False
  assume "s = [] \<or> (\<not> is_space (hd s) \<and> \<not> is_space (last s))"
  with False have h: "\<not> is_space (hd s)" and l: "\<not> is_space (last s)" by auto
  from h False have 1: "dropWhile is_space s = s" by (cases s) auto
  from l False have 2: "dropWhile is_space (rev s) = rev s"
    by (cases "rev s") (auto simp: last_rev [symmetric] hd_rev)
  show ?thesis by (simp add: trim_def 1 2)
qed

lemma trim_trim: "trim (trim s) = trim s"
  by (rule trim_fixed) (rule trim_ends)


text \<open>
  C5. The sanitizer is idempotent on every value. On a string its result is trimmed and
  the tag expression matches at no position of it (every \<open><\<dots>>\<close> and a trailing
  unterminated \<open><\<dots>\<close> are gone); \<^verbatim>\<open><script>alert(1)</script>\<close> becomes \<^verbatim>\<open>alert(1)\<close>; a value
  that is not a string is returned unchanged.
\<close>

theorem sanitize_idempotent:
  "sanitize (sanitize v) = sanitize v
   \<and> (\<exists>r. sanitize (JStr s) = JStr r \<and> trim r = r
          \<and> (\<forall>p q. r = p @ q \<longrightarrow> match_tag q = None))
   \<and> sanitize (JStr (js ''<script>alert(1)</script>'')) = JStr (js ''alert(1)'')
   \<and> (\<not> is_string v \<longrightarrow> sanitize v = v)"
proof (intro conjI)
  have nt: "no_tag (trim (strip_tags t))" for t
    by (intro no_tag_trim no_tag_strip_tags)
  show "sanitize (sanitize v) = sanitize v"
    by (cases v) (simp_all add: strip_tags_no_tag [OF nt] trim_trim)
  show "\<exists>r. sanitize (JStr s) = JStr r \<and> trim r = r \<and> (\<forall>p q. r = p @ q \<longrightarrow> match_tag q = None)"
    using nt [of s] by (simp add: trim_trim no_tag_suffixes)
  show "sanitize (JStr (js ''<script>alert(1)</script>'')) = JStr (js ''alert(1)'')"
    by (simp add: js_def u_def match_tag_def match_tail_def trim_def is_space_def)
  show "\<not> is_string v \<longrightarrow> sanitize v = v"
    by (cases v) simp_all
qed

theorem sanitize_idempotent_witness:
  "sanitize (sanitize (JStr (js '' <b>x</b> <i''))) = sanitize (JStr (js '' <b>x</b> <i''))
   \<and> sanitize (JStr (js '' <b>x</b> <i'')) = JStr (js ''x'')
   \<and> sanitize (JNum 7) = JNum 7 \<and> \<not> is_string (JNum 7)"
  using sanitize_idempotent [of "JStr (js '' <b>x</b> <i'')" "js '' <b>x</b> <i''"]
    sanitize_idempotent [of "JNum 7" "[]"]
  by (simp add: js_def u_def match_tag_def match_tail_def trim_def is_space_def)

section \<open>The CSRF middleware\<close>

text \<open>
  C1, as the claim states it, fails at the instant of expiry: with the clock reading equal
  to \<open>expires\<close> the specification's rule rejects (the record is no longer valid), and the
  middleware calls \<open>next()\<close>.
\<close>

theorem validateCsrfToken_boundary_counterexample:
  "snd (validateCsrfToken 1000 [(js ''s'', \<lparr>token = js ''t'', expires = 1000\<rparr>)]
          \<lparr>sessionId = Some (js ''s''), csrfToken = Some (js ''t'')\<rparr>) = Next
   \<and> csrf_rejected_spec 1000 [(js ''s'', \<lparr>token = js ''t'', expires = 1000\<rparr>)]
          \<lparr>sessionId = Some (js ''s''), csrfToken = Some (js ''t'')\<rparr>"
  by (simp add: validateCsrfToken_def csrf_rejected_spec_def record_valid_spec_def
      cookie_truthy_def js_def)

text \<open>
  C1, amended. The middleware answers itself, and then with status 403 and
  \<open>success: false\<close>, exactly when the \<open>sessionId\<close> or the \<open>csrfToken\<close> cookie is absent or
  empty, the store has no record for the session, the stored token differs from the cookie,
  or the record's \<open>expires\<close> is strictly before the clock reading. A record is accepted up
  to and including the instant \<open>expires\<close>.
\<close>

theorem validateCsrfToken_fails_closed:
  "(snd (validateCsrfToken now st ck) \<noteq> Next \<longleftrightarrow>
      (\<not> cookie_truthy (sessionId ck) \<or> \<not> cookie_truthy (csrfToken ck)
       \<or> (\<exists>sid tok. sessionId ck = Some sid \<and> csrfToken ck = Some tok
            \<and> (map_of st sid = None
               \<or> (\<exists>d. map_of st sid = Some d \<and> (token d \<noteq> tok \<or> expires d < now))))))
   \<and> (snd (validateCsrfToken now st ck) \<noteq> Next \<longrightarrow>
        (\<exists>r. snd (validateCsrfToken now st ck) = Respond r \<and> status r = 403 \<and> \<not> success r))"
  by (cases "sessionId ck"; cases "csrfToken ck")
     (auto simp: validateCsrfToken_def cookie_truthy_def csrf_missing_def csrf_invalid_def
       split: option.splits)

theorem validateCsrfToken_fails_closed_witness:
  "snd (validateCsrfToken 1001 [(js ''s'', \<lparr>token = js ''t'', expires = 1000\<rparr>)]
          \<lparr>sessionId = Some (js ''s''), csrfToken = Some (js ''t'')\<rparr>) \<noteq> Next
   \<and> (\<exists>r. snd (validateCsrfToken 1001 [(js ''s'', \<lparr>token = js ''t'', expires = 1000\<rparr>)]
          \<lparr>sessionId = Some (js ''s''), csrfToken = Some (js ''t'')\<rparr>) = Respond r
        \<and> status r = 403 \<and> \<not> success r)"
  using validateCsrfToken_fails_closed [of 1001 "[(js ''s'', \<lparr>token = js ''t'', expires = 1000\<rparr>)]"
      "\<lparr>sessionId = Some (js ''s''), csrfToken = Some (js ''t'')\<rparr>"]
  by (simp add: cookie_truthy_def js_def)

section \<open>Token issuance\<close>

lemma delete_is_filter: "AList.delete k st = filter (\<lambda>p. fst p \<noteq> k) st"
  by (induction st) (auto simp: AList.delete_eq)

lemma sweep_filter:
  "sweep clk i es st =
     filter (\<lambda>p. \<forall>j<length es. fst (es ! j) = fst p \<longrightarrow> \<not> expires (snd (es ! j)) < clk (i + j)) st"
proof (induction es arbitrary: i st)
  case Nil
  then show ?case by simp
next
  case (Cons e es)
  obtain key data where e: "e = (key, data)" by (cases e)
  have split: "(\<forall>j<Suc (length es). Q j) \<longleftrightarrow> Q 0 \<and> (\<forall>j<length es. Q (Suc j))" for Q
    by (auto simp: less_Suc_eq_0_disj)
  show ?case
    unfolding e
    by (simp only: sweep.simps Cons.IH split list.size length_Cons
        nth_Cons_0 nth_Cons_Suc fst_conv snd_conv add_Suc_right add_Suc add_0_right)
       (auto simp: delete_is_filter intro!: filter_cong)
qed



lemma sweep_map_of_keep:
  assumes "\<forall>d. (k, d) \<in> set es \<longrightarrow> (\<forall>i. \<not> expires d < clk i)"
  shows "map_of (sweep clk i es st) k = map_of st k"
proof -
  have "map_of (filter P st) k = map_of st k" if "\<forall>d. (k, d) \<in> set st \<longrightarrow> P (k, d)"
    for P :: "jsstring \<times> token_data \<Rightarrow> bool" and st
    using that by (induction st) auto
  moreover have "\<forall>j<length es. fst (es ! j) = k \<longrightarrow> \<not> expires (snd (es ! j)) < clk (i + j)"
    using assms by (metis nth_mem prod.collapse)
  ultimately show ?thesis by (simp add: sweep_filter)
qed


lemma map_of_update_same: "map_of (AList.update k v st) k = Some v"
  by (simp add: update_conv')

lemma map_of_delete_same: "map_of (AList.delete k st) k = None"
  by (simp add: delete_conv')






section \<open>The sample submission passes both validations\<close>

lemma match_pieces_ConsI:
  assumes "lo \<le> n" "n \<le> length s" "case hi of None \<Rightarrow> True | Some h \<Rightarrow> n \<le> h"
    and "list_all p (take n s)" "match_pieces ps (drop n s)"
  shows "match_pieces (Piece p lo hi # ps) s"
proof -
  have "n \<in> set [lo ..< Suc (case hi of None \<Rightarrow> length s | Some h \<Rightarrow> min h (length s))]"
    using assms(1-3) by (auto split: option.splits)
  with assms(4,5) show ?thesis
    unfolding match_pieces.simps list_ex_iff by blast
qed

lemmas cls_defs = between_def is_digit_def is_alnum_def is_space_def js_def u_def

lemma js_eq_Nil [simp]: "js s = [] \<longleftrightarrow> s = []"
  by (simp add: js_def)

lemma length_js [simp]: "length (js s) = length s"
  by (simp add: js_def)

lemma ex_email: "match_pieces re_email (js ''budi@mail.id'')"
  unfolding re_email_def plus_def one_def
  by (rule match_pieces_ConsI [where n = 4]; simp add: cls_defs)

lemma ex_email_srv: "match_pieces re_email_srv (js ''budi@mail.id'')"
  unfolding re_email_srv_def plus_def one_def
  by (rule match_pieces_ConsI [where n = 4]; simp add: cls_defs)

lemma ex_phone: "match_pieces re_phone (js ''+6281234567890'')"
  unfolding re_phone_def opt_def
  by (rule match_pieces_ConsI [where n = 1]; simp add: cls_defs)

lemma ex_username: "match_pieces re_username (js ''budi_01'')"
  unfolding re_username_def plus_def
  by (rule match_pieces_ConsI [where n = 7]; simp add: cls_defs)

lemma ex_trim_username: "trim (js ''budi_01'') = js ''budi_01''"
  by (simp add: trim_def is_space_def js_def u_def)

lemma ex_trim_description: "trim (js '' <b>saldo</b> hilang '') = js ''<b>saldo</b> hilang''"
  by (simp add: trim_def is_space_def js_def u_def)

lemma ex_issueType: "js ''Lainnya'' \<in> set validIssueTypes"
  by (simp add: validIssueTypes_def)

lemma example_srv_valid: "validationErrors_srv example_parse 1704070000000 example_body = []"
  by (simp add: validationErrors_srv_def example_body_def example_parse_def check_def
      length_lt_def length_gt_def date_after_def ex_email_srv ex_phone)

lemma example_valid: "validationErrors example_parse 1704070000000 example_body = []"
  by (simp add: validationErrors_def example_body_def example_parse_def check_def
      validators_username_def validators_email_def validators_gameId_def validators_platform_def
      validators_issueType_def validators_description_def
      validators_dateOfIssue_def validators_phoneNumber_def
      ex_email ex_phone ex_username ex_trim_username ex_trim_description ex_issueType)

lemma example_csrf_ok: "validateCsrfToken 1704070000000 example_store example_cookies = (example_store, Next)"
  by (simp add: validateCsrfToken_def example_store_def example_cookies_def cookie_truthy_def)

section \<open>The submission route and the token store\<close>

lemma validateCsrfToken_fst: "fst (validateCsrfToken now st ck) = st"
  by (simp add: validateCsrfToken_def split: option.splits prod.splits)

lemma validateCsrfToken_cases:
  "validateCsrfToken now st ck = (st, Next) \<and> cookie_truthy (sessionId ck)
   \<or> validateCsrfToken now st ck = (st, Respond csrf_missing)
   \<or> validateCsrfToken now st ck = (st, Respond csrf_invalid)"
  by (simp add: validateCsrfToken_def split: option.splits prod.splits)

lemma send_complaint_srv_cases:
  "send_complaint_srv parse gu today now body = Inl server_error \<and> body = None
   \<or> (\<exists>b. body = Some b \<and> validationErrors_srv parse today b \<noteq> []
         \<and> send_complaint_srv parse gu today now body = Inl (invalid_data (validationErrors_srv parse today b)))
   \<or> (\<exists>b. body = Some b \<and> validationErrors_srv parse today b = []
         \<and> send_complaint_srv parse gu today now body
             = Inr (mailOptions_of gu (refNumber now) b, refNumber now))"
  by (cases body) (simp_all add: send_complaint_srv_def Let_def)

text \<open>
  C3. Every request to the submission route that the rate limiter lets through ends in one
  of two ways: status 200 with \<open>success: true\<close> and the reference number, the session's
  record deleted from the store; or \<open>success: false\<close> with status 400, 403 or 500 and no
  reference number, the store exactly as it was.
\<close>

theorem post_send_complaint_atomic:
  "(\<exists>sid. sessionId ck = Some sid
        \<and> fst (post_send_complaint parse gu sendMail t_csrf today now st ck body) = AList.delete sid st
        \<and> map_of (fst (post_send_complaint parse gu sendMail t_csrf today now st ck body)) sid = None
        \<and> snd (post_send_complaint parse gu sendMail t_csrf today now st ck body)
            = \<lparr>status = 200, success = True, message = None, errors = None,
               referenceNumber = Some (refNumber now)\<rparr>)
   \<or> (fst (post_send_complaint parse gu sendMail t_csrf today now st ck body) = st
      \<and> \<not> success (snd (post_send_complaint parse gu sendMail t_csrf today now st ck body))
      \<and> referenceNumber (snd (post_send_complaint parse gu sendMail t_csrf today now st ck body)) = None
      \<and> (status (snd (post_send_complaint parse gu sendMail t_csrf today now st ck body)) = 400
          \<or> status (snd (post_send_complaint parse gu sendMail t_csrf today now st ck body)) = 403
          \<or> status (snd (post_send_complaint parse gu sendMail t_csrf today now st ck body)) = 500))"
proof -
  consider (ok) "validateCsrfToken t_csrf st ck = (st, Next)" "cookie_truthy (sessionId ck)"
    | (missing) "validateCsrfToken t_csrf st ck = (st, Respond csrf_missing)"
    | (invalid) "validateCsrfToken t_csrf st ck = (st, Respond csrf_invalid)"
    using validateCsrfToken_cases [of t_csrf st ck] by blast
  then show ?thesis
  proof cases
    case missing
    then show ?thesis by (simp add: post_send_complaint_def csrf_missing_def)
  next
    case invalid
    then show ?thesis by (simp add: post_send_complaint_def csrf_invalid_def)
  next
    case ok
    from ok(2) obtain sid where sid: "sessionId ck = Some sid"
      by (auto simp: cookie_truthy_def split: option.splits)
    consider (none) "send_complaint_srv parse gu today now body = Inl server_error"
      | (bad) b where "send_complaint_srv parse gu today now body
                         = Inl (invalid_data (validationErrors_srv parse today b))"
      | (good) b where "send_complaint_srv parse gu today now body
                         = Inr (mailOptions_of gu (refNumber now) b, refNumber now)"
      using send_complaint_srv_cases [of parse gu today now body] by blast
    then show ?thesis
    proof cases
      case none
      with ok show ?thesis by (simp add: post_send_complaint_def server_error_def)
    next
      case bad
      with ok show ?thesis by (simp add: post_send_complaint_def invalid_data_def)
    next
      case good
      show ?thesis
      proof (cases "sendMail (mailOptions_of gu (refNumber now) b)")
        case Sent
        with ok good sid show ?thesis
          by (simp add: post_send_complaint_def sendMail_callback_def accepted_def delete_conv')
      next
        case RelayError
        with ok good show ?thesis
          by (simp add: post_send_complaint_def sendMail_callback_def relay_error_def)
      qed
    qed
  qed
qed

theorem post_send_complaint_atomic_witness:
  "post_send_complaint example_parse None (\<lambda>m. Sent) 1704070000000 1704070000000 1704070000123
     example_store example_cookies (Some example_body)
   = ([], \<lparr>status = 200, success = True, message = None, errors = None,
           referenceNumber = Some (refNumber 1704070000123)\<rparr>)
   \<and> post_send_complaint example_parse None (\<lambda>m. RelayError) 1704070000000 1704070000000
        1704070000123 example_store example_cookies (Some example_body)
       = (example_store, relay_error)"
proof -
  have a: "post_send_complaint example_parse None (\<lambda>m. Sent) 1704070000000 1704070000000
      1704070000123 example_store example_cookies (Some example_body)
    = ([], \<lparr>status = 200, success = True, message = None, errors = None,
           referenceNumber = Some (refNumber 1704070000123)\<rparr>)"
    by (simp add: post_send_complaint_def example_csrf_ok send_complaint_srv_def
        example_srv_valid sendMail_callback_def accepted_def Let_def)
       (simp add: example_cookies_def example_store_def cookie_truthy_def AList.delete_eq)
  have b: "post_send_complaint example_parse None (\<lambda>m. RelayError) 1704070000000 1704070000000
      1704070000123 example_store example_cookies (Some example_body)
    = (example_store, relay_error)"
    by (simp add: post_send_complaint_def example_csrf_ok send_complaint_srv_def
        example_srv_valid sendMail_callback_def Let_def)
  show ?thesis
    using a b post_send_complaint_atomic [of example_cookies example_parse None "\<lambda>m. Sent"
      1704070000000 1704070000000 1704070000123 example_store "Some example_body"]
    by simp
qed

text \<open>
  C9. The CSRF middleware returns the store it was given, whether it calls \<open>next()\<close> or
  answers 403. The callback of the relay changes the store only after a successful send,
  and then by deleting the session's record; so a request to the submission route changes
  the store only when validation passed and the relay has sent the message. The one other
  route, token issuance, is the only other writer.
\<close>

theorem validateCsrfToken_read_only:
  "fst (validateCsrfToken now st ck) = st
   \<and> (fst (sendMail_callback result ref st ck) \<noteq> st \<longrightarrow>
        result = Sent \<and> (\<exists>sid. sessionId ck = Some sid \<and> sid \<noteq> []
          \<and> fst (sendMail_callback result ref st ck) = AList.delete sid st))
   \<and> (fst (post_send_complaint parse gu sendMail t_csrf today now' st ck body) \<noteq> st \<longrightarrow>
        (\<exists>sid b. sessionId ck = Some sid \<and> body = Some b
           \<and> snd (validateCsrfToken t_csrf st ck) = Next
           \<and> sendMail (mailOptions_of gu (refNumber now') b) = Sent
           \<and> status (snd (post_send_complaint parse gu sendMail t_csrf today now' st ck body)) = 200
           \<and> fst (post_send_complaint parse gu sendMail t_csrf today now' st ck body)
               = AList.delete sid st))"
proof -
  have A: "fst (validateCsrfToken now st ck) = st" by (rule validateCsrfToken_fst)
  have B: "result = Sent \<and> (\<exists>sid. sessionId ck = Some sid \<and> sid \<noteq> []
          \<and> fst (sendMail_callback result ref st ck) = AList.delete sid st)"
    if "fst (sendMail_callback result ref st ck) \<noteq> st"
    using that by (cases result; cases "sessionId ck")
       (auto simp: sendMail_callback_def cookie_truthy_def split: if_splits)
  let ?res = "post_send_complaint parse gu sendMail t_csrf today now' st ck body"
  have C: "\<exists>sid b. sessionId ck = Some sid \<and> body = Some b
           \<and> snd (validateCsrfToken t_csrf st ck) = Next
           \<and> sendMail (mailOptions_of gu (refNumber now') b) = Sent
           \<and> status (snd ?res) = 200 \<and> fst ?res = AList.delete sid st" if ne: "fst ?res \<noteq> st"
  proof -
  from ne validateCsrfToken_cases [of t_csrf st ck]
  have v: "validateCsrfToken t_csrf st ck = (st, Next)" and t: "cookie_truthy (sessionId ck)"
    by (auto simp: post_send_complaint_def)
  from t obtain sid where sid: "sessionId ck = Some sid"
    by (auto simp: cookie_truthy_def split: option.splits)
  from ne v send_complaint_srv_cases [of parse gu today now' body]
  obtain b where b: "body = Some b"
    and s: "send_complaint_srv parse gu today now' body
              = Inr (mailOptions_of gu (refNumber now') b, refNumber now')"
    by (auto simp: post_send_complaint_def)
  from ne v s have sent: "sendMail (mailOptions_of gu (refNumber now') b) = Sent"
    by (cases "sendMail (mailOptions_of gu (refNumber now') b)")
       (auto simp: post_send_complaint_def sendMail_callback_def)
  from v s sent sid t have "status (snd ?res) = 200" "fst ?res = AList.delete sid st"
    by (simp_all add: post_send_complaint_def sendMail_callback_def accepted_def)
  with sid b v sent show ?thesis
    by simp
  qed
  from A B C show ?thesis by blast
qed

theorem validateCsrfToken_read_only_witness:
  "fst (validateCsrfToken 1704070000000 example_store example_cookies) = example_store
   \<and> fst (sendMail_callback Sent (refNumber 5) example_store example_cookies) = []
   \<and> fst (sendMail_callback Sent (refNumber 5) example_store example_cookies) \<noteq> example_store
   \<and> fst (post_send_complaint example_parse None (\<lambda>m. Sent) 1704070000000 1704070000000
        1704070000123 example_store example_cookies (Some example_body)) = []
   \<and> status (snd (post_send_complaint example_parse None (\<lambda>m. Sent) 1704070000000 1704070000000
        1704070000123 example_store example_cookies (Some example_body))) = 200"
proof -
  have a: "post_send_complaint example_parse None (\<lambda>m. Sent) 1704070000000 1704070000000
      1704070000123 example_store example_cookies (Some example_body)
    = ([], accepted (refNumber 1704070000123))"
    by (simp add: post_send_complaint_def example_csrf_ok send_complaint_srv_def
        example_srv_valid sendMail_callback_def Let_def)
       (simp add: example_cookies_def example_store_def cookie_truthy_def AList.delete_eq)
  have c: "fst (sendMail_callback Sent (refNumber 5) example_store example_cookies) = []"
    by (simp add: sendMail_callback_def example_cookies_def example_store_def cookie_truthy_def
        AList.delete_eq)
  have n: "example_store \<noteq> []" by (simp add: example_store_def)
  show ?thesis
    using a c n validateCsrfToken_read_only [of 1704070000000 example_store example_cookies Sent
        "refNumber 5" example_parse None "\<lambda>m. Sent" 1704070000000 1704070000000 1704070000123
        "Some example_body"]
    by (simp add: accepted_def)
qed

section \<open>One-time use of a token\<close>

lemma get_csrf_token_record:
  assumes "distinct (map fst st)"
    and "\<forall>i. clk i \<le> t_mint + 30 * 60 * 1000"
    and "rand_sid \<noteq> []"
    and "get_csrf_token production rand_sid rand_token t_mint clk st ck = (st1, cs, r)"
  shows "cookie_value (cs ! 0) \<noteq> []"
    and "cookie_value (cs ! 1) = rand_token"
    and "map_of st1 (cookie_value (cs ! 0))
           = Some \<lparr>token = rand_token, expires = t_mint + 30 * 60 * 1000\<rparr>"
proof -
  define sid where "sid = (case sessionId ck of Some s \<Rightarrow> if s \<noteq> [] then s else rand_sid | None \<Rightarrow> rand_sid)"
  define td where "td = \<lparr>token = rand_token, expires = t_mint + 30 * 60 * 1000\<rparr>"
  define st0 where "st0 = AList.update sid td st"
  have ne: "sid \<noteq> []" using assms(3) by (simp add: sid_def split: option.splits)
  from assms(4) have st1: "st1 = sweep clk 0 st0 st0"
    and c0: "cookie_value (cs ! 0) = sid" and c1: "cookie_value (cs ! 1) = rand_token"
    unfolding get_csrf_token_def sid_def [symmetric] generateSecureToken_def Let_def st0_def td_def
    by auto
  have d0: "distinct (map fst st0)"
    unfolding st0_def using assms(1) by (rule distinct_update)
  have m0: "map_of st0 sid = Some td"
    by (simp add: st0_def map_of_update_same)
  have "map_of st1 sid = map_of st0 sid"
    unfolding st1
  proof (rule sweep_map_of_keep, intro allI impI)
    fix d i assume "(sid, d) \<in> set st0"
    with d0 m0 have "d = td" by (simp add: map_of_eq_Some_iff)
    then show "\<not> expires d < clk i" using assms(2) [rule_format, of i] by (simp add: td_def)
  qed
  with m0 have m1: "map_of st1 sid = Some td" by simp
  show "cookie_value (cs ! 0) \<noteq> []" unfolding c0 by (rule ne)
  show "cookie_value (cs ! 1) = rand_token" by (rule c1)
  show "map_of st1 (cookie_value (cs ! 0))
           = Some \<lparr>token = rand_token, expires = t_mint + 30 * 60 * 1000\<rparr>"
    unfolding c0 td_def [symmetric] by (rule m1)
qed

lemma validateCsrfToken_accept:
  assumes "sid \<noteq> []" "tok \<noteq> []" "map_of st sid = Some d" "token d = tok" "\<not> expires d < now"
  shows "validateCsrfToken now st \<lparr>sessionId = Some sid, csrfToken = Some tok\<rparr> = (st, Next)"
  using assms by (simp add: validateCsrfToken_def cookie_truthy_def)

lemma validateCsrfToken_no_record:
  assumes "sid \<noteq> []" "tok \<noteq> []" "map_of st sid = None"
  shows "validateCsrfToken now st \<lparr>sessionId = Some sid, csrfToken = Some tok\<rparr>
           = (st, Respond csrf_invalid)"
  using assms by (simp add: validateCsrfToken_def cookie_truthy_def)

lemma post_send_complaint_success:
  assumes "validateCsrfToken t st ck = (st, Next)" "sessionId ck = Some sid" "sid \<noteq> []"
    "validationErrors_srv parse today b = []"
    "sendMail (mailOptions_of gu (refNumber now) b) = Sent"
  shows "post_send_complaint parse gu sendMail t today now st ck (Some b)
           = (AList.delete sid st, accepted (refNumber now))"
  using assms
  by (simp add: post_send_complaint_def send_complaint_srv_def sendMail_callback_def
      cookie_truthy_def Let_def)

lemma post_send_complaint_rejected:
  assumes "validateCsrfToken t st ck = (st, Respond r)"
  shows "post_send_complaint parse gu sendMail t today now st ck body = (st, r)"
  using assms by (simp add: post_send_complaint_def)

text \<open>
  C2. A token is issued on a store with distinct keys; the sweep of that call and the first
  validation read the clock within the thirty minutes of the token. The browser sends back
  the two cookies it was given. Then validation succeeds; a submission that passes the field
  checks and whose mail is sent is answered 200 with its reference number and deletes the
  record; and from then on, at whatever time, validation with the same cookies answers 403,
  so every further submission with them is rejected before the handler runs.
\<close>

theorem csrf_token_one_time_use:
  assumes "distinct (map fst st)"
    and "\<forall>i. clk i \<le> t_mint + 30 * 60 * 1000"
    and "t_first \<le> t_mint + 30 * 60 * 1000"
    and "rand_sid \<noteq> []" and "rand_token \<noteq> []"
    and "get_csrf_token production rand_sid rand_token t_mint clk st ck = (st1, cs, r)"
    and "ck1 = \<lparr>sessionId = Some (cookie_value (cs ! 0)), csrfToken = Some (cookie_value (cs ! 1))\<rparr>"
    and "validationErrors_srv parse today b = []"
    and "sendMail (mailOptions_of gu (refNumber now) b) = Sent"
    and "post_send_complaint parse gu sendMail t_first today now st1 ck1 (Some b) = (st2, r2)"
  shows "snd (validateCsrfToken t_first st1 ck1) = Next
       \<and> status r2 = 200 \<and> success r2 \<and> referenceNumber r2 = Some (refNumber now)
       \<and> validateCsrfToken t_again st2 ck1 = (st2, Respond csrf_invalid)
       \<and> status csrf_invalid = 403
       \<and> post_send_complaint parse' gu' sendMail' t_again today' now' st2 ck1 body' = (st2, csrf_invalid)"
proof -
  define sid where "sid = cookie_value (cs ! 0)"
  note g = get_csrf_token_record [OF assms(1,2,4,6), folded sid_def]
  have sid: "sid \<noteq> []" by (rule g(1))
  have rec: "map_of st1 sid = Some \<lparr>token = rand_token, expires = t_mint + 30 * 60 * 1000\<rparr>"
    by (rule g(3))
  have ck1: "ck1 = \<lparr>sessionId = Some sid, csrfToken = Some rand_token\<rparr>"
    unfolding assms(7) g(2) sid_def ..
  have fresh: "\<not> expires \<lparr>token = rand_token, expires = t_mint + 30 * 60 * 1000\<rparr> < t_first"
    using assms(3) by simp
  have v1: "validateCsrfToken t_first st1 ck1 = (st1, Next)"
    unfolding ck1 by (rule validateCsrfToken_accept [OF sid assms(5) rec _ fresh]) simp
  have sck: "sessionId ck1 = Some sid" by (simp add: ck1)
  have p: "post_send_complaint parse gu sendMail t_first today now st1 ck1 (Some b)
             = (AList.delete sid st1, accepted (refNumber now))"
    using v1 sck sid assms(8,9) by (rule post_send_complaint_success)
  with assms(10) have st2: "st2 = AList.delete sid st1" and r2: "r2 = accepted (refNumber now)"
    by simp_all
  have gone: "map_of st2 sid = None" unfolding st2 by (rule map_of_delete_same)
  have v2: "validateCsrfToken t_again st2 ck1 = (st2, Respond csrf_invalid)"
    unfolding ck1 by (rule validateCsrfToken_no_record [OF sid assms(5) gone])
  have p2: "post_send_complaint parse' gu' sendMail' t_again today' now' st2 ck1 body' = (st2, csrf_invalid)"
    by (rule post_send_complaint_rejected [OF v2])
  have r2': "status r2 = 200 \<and> success r2 \<and> referenceNumber r2 = Some (refNumber now)"
    unfolding r2 by (simp add: accepted_def)
  have s403: "status csrf_invalid = 403" by (simp add: csrf_invalid_def)
  from v1 have "snd (validateCsrfToken t_first st1 ck1) = Next" by simp
  with r2' v2 s403 p2 show ?thesis by blast
qed


theorem csrf_token_one_time_use_witness:
  "fst (get_csrf_token True (js ''5e55'') (js ''70ce'') 1704069000000 (\<lambda>i. 1704069000000) []
          \<lparr>sessionId = None, csrfToken = None\<rparr>) = example_store
   \<and> snd (validateCsrfToken 1704070000000 example_store example_cookies) = Next
   \<and> validateCsrfToken 1704070000500 [] example_cookies = ([], Respond csrf_invalid)
   \<and> post_send_complaint example_parse None (\<lambda>m. Sent) 1704070000500 1704070000500
        1704070000600 [] example_cookies (Some example_body) = ([], csrf_invalid)"
proof -
  let ?cs = "[\<lparr>cookie_name = js ''sessionId'', cookie_value = js ''5e55'', httpOnly = True,
               secure = True, sameSite = js ''strict'', maxAge = 30 * 60 * 1000\<rparr>,
             \<lparr>cookie_name = js ''csrfToken'', cookie_value = js ''70ce'', httpOnly = True,
               secure = True, sameSite = js ''strict'', maxAge = 30 * 60 * 1000\<rparr>]"
  have g: "get_csrf_token True (js ''5e55'') (js ''70ce'') 1704069000000 (\<lambda>i. 1704069000000) []
             \<lparr>sessionId = None, csrfToken = None\<rparr> = (example_store, ?cs, ok_response)"
    by (simp add: get_csrf_token_def generateSecureToken_def example_store_def Let_def)
  have d: "distinct (map fst ([] :: token_store))" by simp
  have c: "\<forall>i::nat. (\<lambda>i. 1704069000000::int) i \<le> 1704069000000 + 30 * 60 * 1000" by simp
  have t: "(1704070000000::int) \<le> 1704069000000 + 30 * 60 * 1000" by simp
  have n1: "js ''5e55'' \<noteq> []" and n2: "js ''70ce'' \<noteq> []" by simp_all
  have k: "example_cookies
             = \<lparr>sessionId = Some (cookie_value (?cs ! 0)), csrfToken = Some (cookie_value (?cs ! 1))\<rparr>"
    by (simp add: example_cookies_def)
  have s: "(\<lambda>m. Sent) (mailOptions_of None (refNumber 1704070000123) example_body) = Sent"
    by simp
  have p: "post_send_complaint example_parse None (\<lambda>m. Sent) 1704070000000 1704070000000
      1704070000123 example_store example_cookies (Some example_body)
    = ([], accepted (refNumber 1704070000123))"
    by (simp add: post_send_complaint_def example_csrf_ok send_complaint_srv_def
        example_srv_valid sendMail_callback_def Let_def)
       (simp add: example_cookies_def example_store_def cookie_truthy_def AList.delete_eq)
  from csrf_token_one_time_use [where sendMail = "\<lambda>m. Sent" and t_again = 1704070000500
      and parse' = example_parse and gu' = None and sendMail' = "\<lambda>m. Sent"
      and today' = 1704070000500 and now' = 1704070000600 and body' = "Some example_body",
      OF d c t n1 n2 g k example_srv_valid s p]
  show ?thesis using g by simp
qed

section \<open>The reference number\<close>

lemma digits_ge10: "10 \<le> n \<Longrightarrow> digits n = digits (n div 10) @ [digit_char (n mod 10)]"
  by (subst digits.simps) simp

lemma digits_lt10: "n < 10 \<Longrightarrow> digits n = [digit_char n]"
  by (subst digits.simps) simp

lemma digits_last_k:
  "10 ^ k \<le> n \<Longrightarrow>
   drop (length (digits n) - Suc k) (digits n)
     = map (\<lambda>i. digit_char ((n div 10 ^ i) mod 10)) (rev [0..<Suc k])"
proof (induction k arbitrary: n)
  case 0
  show ?case
  proof (cases "n < 10")
    case True
    then show ?thesis by (simp add: digits_lt10)
  next
    case False
    then show ?thesis by (simp add: digits_ge10)
  qed
next
  case (Suc k)
  have "(10::nat) \<le> 10 ^ Suc k" by simp
  with Suc.prems have ge: "10 \<le> n" by linarith
  from Suc.prems have "10 ^ k \<le> n div 10"
    by (simp add: less_eq_div_iff_mult_less_eq mult.commute)
  from Suc.IH [OF this]
  have ih: "drop (length (digits (n div 10)) - Suc k) (digits (n div 10))
              = map (\<lambda>i. digit_char ((n div 10 div 10 ^ i) mod 10)) (rev [0..<Suc k])" .
  have sh: "n div 10 div 10 ^ i = n div 10 ^ Suc i" for i
    by (simp add: div_mult2_eq)
  have "drop (length (digits n) - Suc (Suc k)) (digits n)
          = drop (length (digits (n div 10)) - Suc k) (digits (n div 10)) @ [digit_char (n mod 10)]"
    by (simp add: digits_ge10 [OF ge])
  also have "\<dots> = map (\<lambda>i. digit_char ((n div 10 ^ Suc i) mod 10)) (rev [0..<Suc k])
                   @ [digit_char ((n div 10 ^ 0) mod 10)]"
    by (simp only: ih sh) simp
  also have "\<dots> = map (\<lambda>i. digit_char ((n div 10 ^ i) mod 10)) (rev [0..<Suc (Suc k)])"
    unfolding upt_conv_Cons [OF zero_less_Suc [of "Suc k"]]
    by (simp add: map_Suc_upt [symmetric] rev_map del: upt_Suc)
  finally show ?case .
qed

lemma refNumber_eq:
  assumes "10 ^ 7 \<le> now"
  shows "refNumber now
     = js ''PENA-'' @ map (\<lambda>i. digit_char ((nat now div 10 ^ i) mod 10)) [7, 6, 5, 4, 3, 2, 1, 0]"
proof -
  from assms have "10000000 \<le> now" by simp
  then have "10000000 \<le> nat now" by linarith
  then have n: "10 ^ 7 \<le> nat now" by simp
  have r: "rev [0..<8] = [7, 6, 5, 4, 3, 2, 1, 0::nat]"
    by code_simp
  from \<open>10000000 \<le> now\<close> have "\<not> now < 0" by linarith
  then show ?thesis
    using digits_last_k [OF n] by (simp add: refNumber_def num_to_string_def slice_last_def r)
qed


lemma ex_ref: "refNumber 1704070000123 = js ''PENA-70000123''"
  by (simp add: refNumber_eq digit_char_def js_def u_def)


lemma is_digit_digit_char: "d < 10 \<Longrightarrow> is_digit (digit_char d)"
proof -
  assume "d < 10"
  then have "d \<in> {0, 1, 2, 3, 4, 5, 6, 7, 8, 9}" by auto
  then show ?thesis
    by (auto simp: is_digit_def between_def digit_char_def u_def)
qed

lemma send_complaint_success:
  assumes "validationErrors parse today b = []"
    and "sendMail (mailOptions_of gu (refNumber now) (sanitizedData b)) = Sent"
  shows "send_complaint parse gu sendMail today now (Some b) = accepted (refNumber now)"
  using assms by (simp add: send_complaint_def Let_def)

text \<open>
  C7. Let the clock read at least \<open>10\<^sup>7\<close> milliseconds (a timestamp of eight digits or
  more, as every reading since 1970-01-01T02:46:40Z is). In both servers a submission that
  passes the field checks (and, in the second, the CSRF middleware) and whose mail is sent
  is answered 200 with \<open>success: true\<close> and the reference number \<open>PENA-\<close> followed by the
  last eight decimal digits of the reading, each of them a digit.
\<close>

theorem reference_number_on_success:
  assumes "10 ^ 7 \<le> now"
  shows "(validationErrors parse today b = []
          \<and> sendMail (mailOptions_of gu (refNumber now) (sanitizedData b)) = Sent \<longrightarrow>
            send_complaint parse gu sendMail today now (Some b)
              = \<lparr>status = 200, success = True, message = None, errors = None,
                 referenceNumber = Some (refNumber now)\<rparr>)
       \<and> (snd (validateCsrfToken t_csrf st ck) = Next
          \<and> validationErrors_srv parse today b = []
          \<and> sendMail (mailOptions_of gu (refNumber now) b) = Sent \<longrightarrow>
            snd (post_send_complaint parse gu sendMail t_csrf today now st ck (Some b))
              = \<lparr>status = 200, success = True, message = None, errors = None,
                 referenceNumber = Some (refNumber now)\<rparr>)
       \<and> refNumber now
           = js ''PENA-'' @ map (\<lambda>i. digit_char ((nat now div 10 ^ i) mod 10)) [7, 6, 5, 4, 3, 2, 1, 0]
       \<and> list_all is_digit (map (\<lambda>i. digit_char ((nat now div 10 ^ i) mod 10)) [7, 6, 5, 4, 3, 2, 1, 0])"
proof (intro conjI impI)
  assume "validationErrors parse today b = []
          \<and> sendMail (mailOptions_of gu (refNumber now) (sanitizedData b)) = Sent"
  then show "send_complaint parse gu sendMail today now (Some b)
              = \<lparr>status = 200, success = True, message = None, errors = None,
                 referenceNumber = Some (refNumber now)\<rparr>"
    by (simp add: send_complaint_success accepted_def)
next
  assume a: "snd (validateCsrfToken t_csrf st ck) = Next
          \<and> validationErrors_srv parse today b = []
          \<and> sendMail (mailOptions_of gu (refNumber now) b) = Sent"
  then have v: "validateCsrfToken t_csrf st ck = (st, Next)"
    using validateCsrfToken_fst [of t_csrf st ck] by (metis prod.collapse)
  with a show "snd (post_send_complaint parse gu sendMail t_csrf today now st ck (Some b))
              = \<lparr>status = 200, success = True, message = None, errors = None,
                 referenceNumber = Some (refNumber now)\<rparr>"
    by (simp add: post_send_complaint_def send_complaint_srv_def sendMail_callback_def
        accepted_def Let_def)
next
  show "refNumber now
           = js ''PENA-'' @ map (\<lambda>i. digit_char ((nat now div 10 ^ i) mod 10)) [7, 6, 5, 4, 3, 2, 1, 0]"
    using assms by (rule refNumber_eq)
next
  show "list_all is_digit (map (\<lambda>i. digit_char ((nat now div 10 ^ i) mod 10)) [7, 6, 5, 4, 3, 2, 1, 0])"
    by (simp add: is_digit_digit_char)
qed

theorem reference_number_on_success_witness:
  "send_complaint example_parse None (\<lambda>m. Sent) 1704070000000 1704070000123 (Some example_body)
     = \<lparr>status = 200, success = True, message = None, errors = None,
        referenceNumber = Some (js ''PENA-70000123'')\<rparr>
   \<and> snd (post_send_complaint example_parse None (\<lambda>m. Sent) 1704070000000 1704070000000
        1704070000123 example_store example_cookies (Some example_body))
     = \<lparr>status = 200, success = True, message = None, errors = None,
        referenceNumber = Some (js ''PENA-70000123'')\<rparr>"
proof -
  have n: "(10::int) ^ 7 \<le> 1704070000123" by simp
  have c: "snd (validateCsrfToken 1704070000000 example_store example_cookies) = Next"
    by (simp add: example_csrf_ok)
  from reference_number_on_success [OF n, where parse = example_parse and today = 1704070000000
      and b = example_body and sendMail = "\<lambda>m. Sent" and gu = None and t_csrf = 1704070000000
      and st = example_store and ck = example_cookies]
  show ?thesis
    by (simp add: example_valid example_srv_valid c ex_ref)
qed

section \<open>The validators of the first server\<close>

lemma u_inj [simp]: "u c = u d \<longleftrightarrow> c = d"
proof
  assume "u c = u d"
  then have "unat (u c) = unat (u d)" by simp
  moreover have "(of_char e :: nat) < 65536" for e
  proof -
    have "(of_char e :: nat) mod 256 = of_char e" by (rule of_char_mod_256)
    then have "(of_char e :: nat) < 256" by (metis mod_less_divisor zero_less_numeral)
    then show ?thesis by linarith
  qed
  ultimately have "(of_char c :: nat) = of_char d"
    by (simp add: u_def unat_of_nat)
  then show "c = d" by simp
qed simp

lemma js_inj [simp]: "js s = js t \<longleftrightarrow> s = t"
  unfolding js_def by (rule inj_map_eq_map) (simp add: inj_on_def)

lemma match_plus: "match_pieces [plus p] s \<longleftrightarrow> s \<noteq> [] \<and> list_all p s"
proof -
  have "match_pieces [plus p] s
          \<longleftrightarrow> (\<exists>n. Suc 0 \<le> n \<and> n \<le> length s \<and> list_all p (take n s) \<and> length s \<le> n)"
    by (auto simp: plus_def list_ex_iff)
  also have "\<dots> \<longleftrightarrow> s \<noteq> [] \<and> list_all p s"
  proof
    assume "\<exists>n. Suc 0 \<le> n \<and> n \<le> length s \<and> list_all p (take n s) \<and> length s \<le> n"
    then obtain n where n: "Suc 0 \<le> n" "n \<le> length s" "list_all p (take n s)" "length s \<le> n"
      by blast
    from n(2,4) have "n = length s" by simp
    with n(1,3) show "s \<noteq> [] \<and> list_all p s" by auto
  next
    assume a: "s \<noteq> [] \<and> list_all p s"
    then have "Suc 0 \<le> length s \<and> length s \<le> length s \<and> list_all p (take (length s) s)
                \<and> length s \<le> length s"
      by (cases s) auto
    then show "\<exists>n. Suc 0 \<le> n \<and> n \<le> length s \<and> list_all p (take n s) \<and> length s \<le> n"
      by blast
  qed
  finally show ?thesis .
qed

lemma example_fields:
  "validators_username (JStr (js ''budi_01''))"
  "validators_email (JStr (js ''budi@mail.id''))"
  "validators_platform (JStr (js ''PENASLOT''))"
  "validators_issueType (JStr (js ''Lainnya''))"
  "validators_description (JStr (js '' <b>saldo</b> hilang ''))"
  "validators_dateOfIssue example_parse 1704070000000 (JStr (js ''2024-01-01''))"
  "validators_phoneNumber (JStr (js ''+6281234567890''))"
  "validators_gameId (JStr [])"
  by (simp_all add: validators_username_def validators_email_def validators_gameId_def
      validators_platform_def validators_issueType_def validators_description_def
      validators_dateOfIssue_def validators_phoneNumber_def example_parse_def
      ex_email ex_phone ex_username ex_trim_username ex_trim_description ex_issueType)

text \<open>
  C6. \<open>validators.username\<close> accepts a value exactly when it is a string whose trimmed
  length is between 3 and 50 and all of whose code units are in \<open>[A-Za-z0-9_]\<close>; the
  handler of the first server answers a value it rejects with status 400 and the entry
  \<open>username\<close> in \<open>errors\<close>.
\<close>

theorem validators_username_iff:
  "(validators_username v \<longleftrightarrow>
      (\<exists>s. v = JStr s \<and> 3 \<le> length (trim s) \<and> length (trim s) \<le> 50
           \<and> list_all (\<lambda>c. u CHR ''a'' \<le> c \<and> c \<le> u CHR ''z''
                           \<or> u CHR ''A'' \<le> c \<and> c \<le> u CHR ''Z''
                           \<or> u CHR ''0'' \<le> c \<and> c \<le> u CHR ''9''
                           \<or> c = u CHR ''_'') s))
   \<and> (\<not> validators_username (username b) \<longrightarrow>
        (js ''username'', js ''Username tidak valid'') \<in> set (validationErrors parse today b)
        \<and> status (send_complaint parse gu sendMail today now (Some b)) = 400
        \<and> map_of (the (errors (send_complaint parse gu sendMail today now (Some b)))) (js ''username'')
            = Some (js ''Username tidak valid''))"
proof -
  have ne: "s \<noteq> []" if "3 \<le> length (trim s)" for s
    using that by (cases s) (auto simp: trim_def)
  have A: "validators_username v \<longleftrightarrow>
      (\<exists>s. v = JStr s \<and> 3 \<le> length (trim s) \<and> length (trim s) \<le> 50
           \<and> list_all (\<lambda>c. u CHR ''a'' \<le> c \<and> c \<le> u CHR ''z''
                           \<or> u CHR ''A'' \<le> c \<and> c \<le> u CHR ''Z''
                           \<or> u CHR ''0'' \<le> c \<and> c \<le> u CHR ''9''
                           \<or> c = u CHR ''_'') s)"
    by (cases v)
       (auto simp: validators_username_def re_username_def match_plus is_alnum_def is_digit_def
          between_def disj_ac dest: ne)
  have B: "(js ''username'', js ''Username tidak valid'') \<in> set (validationErrors parse today b)
        \<and> status (send_complaint parse gu sendMail today now (Some b)) = 400
        \<and> map_of (the (errors (send_complaint parse gu sendMail today now (Some b)))) (js ''username'')
            = Some (js ''Username tidak valid'')" if a: "\<not> validators_username (username b)"
  proof -
  from a have m: "(js ''username'', js ''Username tidak valid'') \<in> set (validationErrors parse today b)"
    by (simp add: validationErrors_def check_def)
  then have n: "validationErrors parse today b \<noteq> []" by auto
  from a have h: "validationErrors parse today b
      = (js ''username'', js ''Username tidak valid'') # tl (validationErrors parse today b)"
    by (simp add: validationErrors_def check_def)
  have r: "send_complaint parse gu sendMail today now (Some b)
             = invalid_data (validationErrors parse today b)"
    using n by (simp add: send_complaint_def Let_def)
  have "map_of (validationErrors parse today b) (js ''username'') = Some (js ''Username tidak valid'')"
    by (subst h) simp
  with m r show ?thesis
    by (simp add: invalid_data_def)
  qed
  from A B show ?thesis by blast
qed


theorem validators_username_iff_witness:
  "validators_username (JStr (js ''budi_01''))
   \<and> \<not> validators_username (JStr (js ''ab''))
   \<and> \<not> validators_username (JNum 12345)
   \<and> status (send_complaint example_parse None (\<lambda>m. Sent) 1704070000000 1704070000123
         (Some (example_body\<lparr>username := JStr (js ''ab'')\<rparr>))) = 400
   \<and> map_of (the (errors (send_complaint example_parse None (\<lambda>m. Sent) 1704070000000 1704070000123
         (Some (example_body\<lparr>username := JStr (js ''ab'')\<rparr>))))) (js ''username'')
       = Some (js ''Username tidak valid'')"
proof -
  have a: "validators_username (JStr (js ''budi_01''))"
    by (simp add: validators_username_def ex_username ex_trim_username)
  have "trim (js ''ab'') = js ''ab''"
    by (simp add: trim_def is_space_def js_def u_def)
  then have b: "\<not> validators_username (JStr (js ''ab''))"
    by (simp add: validators_username_def)
  have c: "\<not> validators_username (JNum 12345)"
    by (simp add: validators_username_def)
  have d: "\<not> validators_username (username (example_body\<lparr>username := JStr (js ''ab'')\<rparr>))"
    using b by simp
  from validators_username_iff [of "JStr (js ''ab'')" "example_body\<lparr>username := JStr (js ''ab'')\<rparr>"
      example_parse 1704070000000 None "\<lambda>m. Sent" 1704070000123] d a b c
  show ?thesis by blast
qed

lemma check_keys: "x \<in> set (map fst (check ok k m)) \<longleftrightarrow> \<not> ok \<and> x = k"
  by (cases ok) (auto simp: check_def)

lemma check_disjoint: "set (map fst (check ok k m)) \<inter> S = {} \<longleftrightarrow> ok \<or> k \<notin> S"
  by (cases ok) (auto simp: check_def)

lemma check_keys_image: "x \<in> fst ` set (check ok k m) \<longleftrightarrow> \<not> ok \<and> x = k"
  by (cases ok) (auto simp: check_def)

lemma check_disjoint_image: "fst ` set (check ok k m) \<inter> S = {} \<longleftrightarrow> ok \<or> k \<notin> S"
  by (cases ok) (auto simp: check_def)

lemma check_distinct: "distinct (map fst (check ok k m))"
  by (simp add: check_def)

lemma check_messages: "list_all (\<lambda>p. snd p \<noteq> []) (check ok k m) \<longleftrightarrow> ok \<or> m \<noteq> []"
  by (simp add: check_def)

lemma in_set_map_fst_append:
  "x \<in> set (map fst (xs @ ys)) \<longleftrightarrow> x \<in> set (map fst xs) \<or> x \<in> set (map fst ys)"
  by auto

text \<open>
  C4. The handler of the first server evaluates all eight predicates: the key of a field is
  in \<open>errors\<close> exactly when the predicate of that field fails, no other key occurs, no key
  occurs twice, every entry carries a non-empty message, and a non-empty map is answered
  with status 400 and that whole map.
\<close>

theorem validation_exhaustive:
  "(js ''username'' \<in> set (map fst (validationErrors parse today b))
      \<longleftrightarrow> \<not> validators_username (username b))
   \<and> (js ''email'' \<in> set (map fst (validationErrors parse today b))
      \<longleftrightarrow> \<not> validators_email (email b))
   \<and> (js ''platform'' \<in> set (map fst (validationErrors parse today b))
      \<longleftrightarrow> \<not> validators_platform (platform b))
   \<and> (js ''issueType'' \<in> set (map fst (validationErrors parse today b))
      \<longleftrightarrow> \<not> validators_issueType (issueType b))
   \<and> (js ''description'' \<in> set (map fst (validationErrors parse today b))
      \<longleftrightarrow> \<not> validators_description (description b))
   \<and> (js ''dateOfIssue'' \<in> set (map fst (validationErrors parse today b))
      \<longleftrightarrow> \<not> validators_dateOfIssue parse today (dateOfIssue b))
   \<and> (js ''phoneNumber'' \<in> set (map fst (validationErrors parse today b))
      \<longleftrightarrow> \<not> validators_phoneNumber (phoneNumber b))
   \<and> (js ''gameId'' \<in> set (map fst (validationErrors parse today b))
      \<longleftrightarrow> \<not> validators_gameId (gameId b))
   \<and> set (map fst (validationErrors parse today b))
        \<subseteq> {js ''username'', js ''email'', js ''platform'', js ''issueType'', js ''description'',
            js ''dateOfIssue'', js ''phoneNumber'', js ''gameId''}
   \<and> distinct (map fst (validationErrors parse today b))
   \<and> list_all (\<lambda>p. snd p \<noteq> []) (validationErrors parse today b)
   \<and> (validationErrors parse today b \<noteq> [] \<longrightarrow>
        send_complaint parse gu sendMail today now (Some b)
          = \<lparr>status = 400, success = False, message = Some (js ''Data tidak valid''),
             errors = Some (validationErrors parse today b), referenceNumber = None\<rparr>)
   \<and> (validationErrors parse today b = [] \<longrightarrow>
        errors (send_complaint parse gu sendMail today now (Some b)) = None)"
proof -
  let ?E = "validationErrors parse today b"
  have keys: "x \<in> set (map fst ?E) \<longleftrightarrow>
       \<not> validators_username (username b) \<and> x = js ''username''
     \<or> \<not> validators_email (email b) \<and> x = js ''email''
     \<or> \<not> validators_platform (platform b) \<and> x = js ''platform''
     \<or> \<not> validators_issueType (issueType b) \<and> x = js ''issueType''
     \<or> \<not> validators_description (description b) \<and> x = js ''description''
     \<or> \<not> validators_dateOfIssue parse today (dateOfIssue b) \<and> x = js ''dateOfIssue''
     \<or> \<not> validators_phoneNumber (phoneNumber b) \<and> x = js ''phoneNumber''
     \<or> \<not> validators_gameId (gameId b) \<and> x = js ''gameId''" for x
    unfolding validationErrors_def by (simp only: in_set_map_fst_append check_keys)
  have k1: "js ''username'' \<in> set (map fst ?E) \<longleftrightarrow> \<not> validators_username (username b)"
    and k2: "js ''email'' \<in> set (map fst ?E) \<longleftrightarrow> \<not> validators_email (email b)"
    and k3: "js ''platform'' \<in> set (map fst ?E) \<longleftrightarrow> \<not> validators_platform (platform b)"
    and k4: "js ''issueType'' \<in> set (map fst ?E) \<longleftrightarrow> \<not> validators_issueType (issueType b)"
    and k5: "js ''description'' \<in> set (map fst ?E) \<longleftrightarrow> \<not> validators_description (description b)"
    and k6: "js ''dateOfIssue'' \<in> set (map fst ?E)
               \<longleftrightarrow> \<not> validators_dateOfIssue parse today (dateOfIssue b)"
    and k7: "js ''phoneNumber'' \<in> set (map fst ?E) \<longleftrightarrow> \<not> validators_phoneNumber (phoneNumber b)"
    and k8: "js ''gameId'' \<in> set (map fst ?E) \<longleftrightarrow> \<not> validators_gameId (gameId b)"
    by (simp_all only: keys) simp_all
  have sub: "set (map fst ?E)
        \<subseteq> {js ''username'', js ''email'', js ''platform'', js ''issueType'', js ''description'',
            js ''dateOfIssue'', js ''phoneNumber'', js ''gameId''}"
    using keys by blast
  have dis: "distinct (map fst ?E)"
    unfolding validationErrors_def
    by (simp add: check_distinct check_disjoint_image check_keys_image image_Un)
  have msg: "list_all (\<lambda>p. snd p \<noteq> []) ?E"
    unfolding validationErrors_def by (simp add: check_messages)
  have bad: "send_complaint parse gu sendMail today now (Some b)
          = \<lparr>status = 400, success = False, message = Some (js ''Data tidak valid''),
             errors = Some ?E, referenceNumber = None\<rparr>" if "?E \<noteq> []"
    using that by (simp add: send_complaint_def Let_def invalid_data_def)
  have good: "errors (send_complaint parse gu sendMail today now (Some b)) = None" if "?E = []"
    using that
    by (cases "sendMail (mailOptions_of gu (refNumber now) (sanitizedData b))")
       (simp_all add: send_complaint_def Let_def accepted_def relay_error_def)
  from k1 k2 k3 k4 k5 k6 k7 k8 sub dis msg bad good show ?thesis by blast
qed

theorem validation_exhaustive_witness:
  "validationErrors example_parse 1704070000000 (example_body\<lparr>username := JStr (js ''ab'')\<rparr>)
     = [(js ''username'', js ''Username tidak valid'')]
   \<and> validationErrors example_parse 1704000000000
        (example_body\<lparr>username := JStr (js ''ab'')\<rparr>)
     = [(js ''username'', js ''Username tidak valid''),
        (js ''dateOfIssue'', js ''Tanggal masalah tidak valid'')]
   \<and> send_complaint example_parse None (\<lambda>m. Sent) 1704070000000 1704070000123
        (Some (example_body\<lparr>username := JStr (js ''ab'')\<rparr>))
     = \<lparr>status = 400, success = False, message = Some (js ''Data tidak valid''),
        errors = Some [(js ''username'', js ''Username tidak valid'')], referenceNumber = None\<rparr>"
proof -
  have "trim (js ''ab'') = js ''ab''"
    by (simp add: trim_def is_space_def js_def u_def)
  then have b: "\<not> validators_username (JStr (js ''ab''))"
    by (simp add: validators_username_def)
  have f: "\<not> validators_dateOfIssue example_parse 1704000000000 (JStr (js ''2024-01-01''))"
    by (simp add: validators_dateOfIssue_def example_parse_def)
  have e1: "validationErrors example_parse 1704070000000 (example_body\<lparr>username := JStr (js ''ab'')\<rparr>)
     = [(js ''username'', js ''Username tidak valid'')]"
    by (simp add: validationErrors_def example_body_def check_def b example_fields)
  have e2: "validationErrors example_parse 1704000000000
        (example_body\<lparr>username := JStr (js ''ab'')\<rparr>)
     = [(js ''username'', js ''Username tidak valid''),
        (js ''dateOfIssue'', js ''Tanggal masalah tidak valid'')]"
    by (simp add: validationErrors_def example_body_def check_def b f example_fields)
  from validation_exhaustive [of example_parse 1704070000000
      "example_body\<lparr>username := JStr (js ''ab'')\<rparr>" None "\<lambda>m. Sent" 1704070000123] e1 e2
  show ?thesis by simp
qed

section \<open>The mail of the second server\<close>

text \<open>
  C10, as the claim states it, fails on the game identifier: the sample submission, whose
  \<open>gameId\<close> is the empty string, passes the checks of the second server, and the text of
  its mail reads \<open>Game ID: N/A\<close>, not the empty value.
\<close>

theorem mail_gameId_counterexample:
  "validationErrors_srv example_parse 1704070000000 example_body = []
   \<and> send_complaint_srv example_parse None 1704070000000 1704070000123 (Some example_body)
       = Inr (mailOptions_of None (refNumber 1704070000123) example_body, refNumber 1704070000123)
   \<and> mail_text (mailOptions_of None (refNumber 1704070000123) example_body)
       \<noteq> mail_text (raw_mailOptions_spec None (refNumber 1704070000123) example_body)"
proof -
  have t: "mail_text (mailOptions_of None (refNumber 1704070000123) example_body)
       \<noteq> mail_text (raw_mailOptions_spec None (refNumber 1704070000123) example_body)"
    by (simp add: mailOptions_of_def raw_mailOptions_spec_def mail_template_def or_na_def
        example_body_def)
  show ?thesis
    using example_srv_valid t by (simp add: send_complaint_srv_def Let_def)
qed

text \<open>
  C10, amended. The second server sanitizes nothing: for a submission that passes its
  checks the subject and the text of the mail are the template filled with the fields of
  the body as they came (a string is embedded as it is, untrimmed and with its tags; any
  other value through \<open>ToString\<close>), except that a falsy \<open>gameId\<close> (absent, empty) is
  written \<open>N/A\<close>.
\<close>

theorem send_complaint_srv_mail_raw:
  assumes "validationErrors_srv parse today b = []"
  shows "send_complaint_srv parse gu today now (Some b)
     = Inr (\<lparr>mail_from = gu, mail_to = js ''teampenaslot@gmail.com'',
             mail_subject =
               js ''PENASLOT Complaint: '' @ ToString (issueType b) @ js '' - ''
               @ ToString (username b) @ js '' - '' @ refNumber now,
             mail_text =
               [0x0A] @ js ''PENASLOT Customer Complaint'' @ [0x0A, 0x0A]
               @ js ''Nomor Referensi: '' @ refNumber now @ [0x0A]
               @ js ''Username: '' @ ToString (username b) @ [0x0A]
               @ js ''Email: '' @ ToString (email b) @ [0x0A]
               @ js ''Nomor Whatsapp: '' @ ToString (phoneNumber b) @ [0x0A]
               @ js ''Platform: '' @ ToString (platform b) @ [0x0A]
               @ js ''Jenis Kendala: '' @ ToString (issueType b) @ [0x0A]
               @ js ''Game ID: ''
               @ (if falsy (gameId b) then js ''N/A'' else ToString (gameId b)) @ [0x0A]
               @ js ''Tanggal: '' @ ToString (dateOfIssue b) @ [0x0A, 0x0A]
               @ js ''Description:'' @ [0x0A]
               @ ToString (description b) @ [0x0A] @ js ''      ''\<rparr>,
            refNumber now)
     \<and> ToString (JStr s) = s"
  using assms
  by (simp add: send_complaint_srv_def Let_def mailOptions_of_def mail_template_def nl_def
      or_na_def mail_recipient_def)

theorem send_complaint_srv_mail_raw_witness:
  "send_complaint_srv example_parse None 1704070000000 1704070000123 (Some example_body)
     = Inr (\<lparr>mail_from = None, mail_to = js ''teampenaslot@gmail.com'',
             mail_subject = js ''PENASLOT Complaint: Lainnya - budi_01 - PENA-70000123'',
             mail_text =
               [0x0A] @ js ''PENASLOT Customer Complaint'' @ [0x0A, 0x0A]
               @ js ''Nomor Referensi: PENA-70000123'' @ [0x0A]
               @ js ''Username: budi_01'' @ [0x0A]
               @ js ''Email: budi@mail.id'' @ [0x0A]
               @ js ''Nomor Whatsapp: +6281234567890'' @ [0x0A]
               @ js ''Platform: PENASLOT'' @ [0x0A]
               @ js ''Jenis Kendala: Lainnya'' @ [0x0A]
               @ js ''Game ID: N/A'' @ [0x0A]
               @ js ''Tanggal: 2024-01-01'' @ [0x0A, 0x0A]
               @ js ''Description:'' @ [0x0A]
               @ js '' <b>saldo</b> hilang '' @ [0x0A] @ js ''      ''\<rparr>,
            js ''PENA-70000123'')"
  using send_complaint_srv_mail_raw [OF example_srv_valid, of None 1704070000123 "[]"]
  by (simp add: example_body_def ex_ref) (simp add: js_def)

end
